theory Spec2Isabelle
  imports Complex_Main "HOL-Library.AList"
begin

section \<open>Shared vocabulary of the three endpoints (application.py)\<close>

text \<open>
  The public state label and the socket-level label are Python strings in the source;
  only the literals below are ever assigned, so each becomes a datatype.
\<close>

datatype conn_state = Disconnected | Connecting | Connected | Timeout

datatype sock_state = Down | Trying | Up

text \<open>
  The message-type discriminator \<open>Container.type\<close>. The enumeration is declared in
  \<open>types_pb2\<close>, outside application.py, so a code is represented by its name; the
  abbreviations are the codes that application.py mentions.
\<close>

datatype msg_type = MT string

abbreviation MT_PING :: msg_type where "MT_PING \<equiv> MT ''PING''"
abbreviation MT_PING_ACKNOWLEDGE :: msg_type where "MT_PING_ACKNOWLEDGE \<equiv> MT ''PING_ACKNOWLEDGE''"
abbreviation MT_ERROR :: msg_type where "MT_ERROR \<equiv> MT ''ERROR''"
abbreviation MT_SHUTDOWN :: msg_type where "MT_SHUTDOWN \<equiv> MT ''SHUTDOWN''"
abbreviation MT_EMCSTAT_FULL_UPDATE :: msg_type where "MT_EMCSTAT_FULL_UPDATE \<equiv> MT ''EMCSTAT_FULL_UPDATE''"
abbreviation MT_EMCSTAT_INCREMENTAL_UPDATE :: msg_type where "MT_EMCSTAT_INCREMENTAL_UPDATE \<equiv> MT ''EMCSTAT_INCREMENTAL_UPDATE''"
abbreviation MT_EMC_NML_ERROR :: msg_type where "MT_EMC_NML_ERROR \<equiv> MT ''EMC_NML_ERROR''"
abbreviation MT_EMC_NML_TEXT :: msg_type where "MT_EMC_NML_TEXT \<equiv> MT ''EMC_NML_TEXT''"
abbreviation MT_EMC_NML_DISPLAY :: msg_type where "MT_EMC_NML_DISPLAY \<equiv> MT ''EMC_NML_DISPLAY''"
abbreviation MT_EMC_OPERATOR_ERROR :: msg_type where "MT_EMC_OPERATOR_ERROR \<equiv> MT ''EMC_OPERATOR_ERROR''"
abbreviation MT_EMC_OPERATOR_TEXT :: msg_type where "MT_EMC_OPERATOR_TEXT \<equiv> MT ''EMC_OPERATOR_TEXT''"
abbreviation MT_EMC_OPERATOR_DISPLAY :: msg_type where "MT_EMC_OPERATOR_DISPLAY \<equiv> MT ''EMC_OPERATOR_DISPLAY''"
abbreviation MT_EMC_TASK_ABORT :: msg_type where "MT_EMC_TASK_ABORT \<equiv> MT ''EMC_TASK_ABORT''"
abbreviation MT_EMC_TASK_PLAN_RUN :: msg_type where "MT_EMC_TASK_PLAN_RUN \<equiv> MT ''EMC_TASK_PLAN_RUN''"
abbreviation MT_EMC_TASK_PLAN_PAUSE :: msg_type where "MT_EMC_TASK_PLAN_PAUSE \<equiv> MT ''EMC_TASK_PLAN_PAUSE''"
abbreviation MT_EMC_TASK_PLAN_STEP :: msg_type where "MT_EMC_TASK_PLAN_STEP \<equiv> MT ''EMC_TASK_PLAN_STEP''"
abbreviation MT_EMC_TASK_RESUME :: msg_type where "MT_EMC_TASK_RESUME \<equiv> MT ''EMC_TASK_RESUME''"
abbreviation MT_EMC_TASK_PLAN_INIT :: msg_type where "MT_EMC_TASK_PLAN_INIT \<equiv> MT ''EMC_TASK_PLAN_INIT''"
abbreviation MT_EMC_TASK_SET_MODE :: msg_type where "MT_EMC_TASK_SET_MODE \<equiv> MT ''EMC_TASK_SET_MODE''"
abbreviation MT_EMC_TASK_SET_STATE :: msg_type where "MT_EMC_TASK_SET_STATE \<equiv> MT ''EMC_TASK_SET_STATE''"
abbreviation MT_EMC_TASK_PLAN_OPEN :: msg_type where "MT_EMC_TASK_PLAN_OPEN \<equiv> MT ''EMC_TASK_PLAN_OPEN''"
abbreviation MT_EMC_TASK_PLAN_EXECUTE :: msg_type where "MT_EMC_TASK_PLAN_EXECUTE \<equiv> MT ''EMC_TASK_PLAN_EXECUTE''"
abbreviation MT_EMC_SPINDLE_BRAKE_ENGAGE :: msg_type where "MT_EMC_SPINDLE_BRAKE_ENGAGE \<equiv> MT ''EMC_SPINDLE_BRAKE_ENGAGE''"
abbreviation MT_EMC_SPINDLE_BRAKE_RELEASE :: msg_type where "MT_EMC_SPINDLE_BRAKE_RELEASE \<equiv> MT ''EMC_SPINDLE_BRAKE_RELEASE''"
abbreviation MT_EMC_SET_DEBUG :: msg_type where "MT_EMC_SET_DEBUG \<equiv> MT ''EMC_SET_DEBUG''"
abbreviation MT_EMC_TRAJ_SET_SCALE :: msg_type where "MT_EMC_TRAJ_SET_SCALE \<equiv> MT ''EMC_TRAJ_SET_SCALE''"
abbreviation MT_EMC_COOLANT_FLOOD_ON :: msg_type where "MT_EMC_COOLANT_FLOOD_ON \<equiv> MT ''EMC_COOLANT_FLOOD_ON''"
abbreviation MT_EMC_COOLANT_FLOOD_OFF :: msg_type where "MT_EMC_COOLANT_FLOOD_OFF \<equiv> MT ''EMC_COOLANT_FLOOD_OFF''"
abbreviation MT_EMC_AXIS_HOME :: msg_type where "MT_EMC_AXIS_HOME \<equiv> MT ''EMC_AXIS_HOME''"
abbreviation MT_EMC_AXIS_ABORT :: msg_type where "MT_EMC_AXIS_ABORT \<equiv> MT ''EMC_AXIS_ABORT''"
abbreviation MT_EMC_AXIS_JOG :: msg_type where "MT_EMC_AXIS_JOG \<equiv> MT ''EMC_AXIS_JOG''"
abbreviation MT_EMC_AXIS_INCR_JOG :: msg_type where "MT_EMC_AXIS_INCR_JOG \<equiv> MT ''EMC_AXIS_INCR_JOG''"
abbreviation MT_EMC_TOOL_LOAD_TOOL_TABLE :: msg_type where "MT_EMC_TOOL_LOAD_TOOL_TABLE \<equiv> MT ''EMC_TOOL_LOAD_TOOL_TABLE''"
abbreviation MT_EMC_TRAJ_SET_MAX_VELOCITY :: msg_type where "MT_EMC_TRAJ_SET_MAX_VELOCITY \<equiv> MT ''EMC_TRAJ_SET_MAX_VELOCITY''"
abbreviation MT_EMC_COOLANT_MIST_ON :: msg_type where "MT_EMC_COOLANT_MIST_ON \<equiv> MT ''EMC_COOLANT_MIST_ON''"
abbreviation MT_EMC_COOLANT_MIST_OFF :: msg_type where "MT_EMC_COOLANT_MIST_OFF \<equiv> MT ''EMC_COOLANT_MIST_OFF''"
abbreviation MT_EMC_AXIS_OVERRIDE_LIMITS :: msg_type where "MT_EMC_AXIS_OVERRIDE_LIMITS \<equiv> MT ''EMC_AXIS_OVERRIDE_LIMITS''"
abbreviation MT_EMC_MOTION_ADAPTIVE :: msg_type where "MT_EMC_MOTION_ADAPTIVE \<equiv> MT ''EMC_MOTION_ADAPTIVE''"
abbreviation MT_EMC_MOTION_SET_AOUT :: msg_type where "MT_EMC_MOTION_SET_AOUT \<equiv> MT ''EMC_MOTION_SET_AOUT''"
abbreviation MT_EMC_TASK_PLAN_SET_BLOCK_DELETE :: msg_type where "MT_EMC_TASK_PLAN_SET_BLOCK_DELETE \<equiv> MT ''EMC_TASK_PLAN_SET_BLOCK_DELETE''"
abbreviation MT_EMC_MOTION_SET_DOUT :: msg_type where "MT_EMC_MOTION_SET_DOUT \<equiv> MT ''EMC_MOTION_SET_DOUT''"
abbreviation MT_EMC_TRAJ_SET_FH_ENABLE :: msg_type where "MT_EMC_TRAJ_SET_FH_ENABLE \<equiv> MT ''EMC_TRAJ_SET_FH_ENABLE''"
abbreviation MT_EMC_TRAJ_SET_FO_ENABLE :: msg_type where "MT_EMC_TRAJ_SET_FO_ENABLE \<equiv> MT ''EMC_TRAJ_SET_FO_ENABLE''"
abbreviation MT_EMC_AXIS_SET_MAX_POSITION_LIMIT :: msg_type where "MT_EMC_AXIS_SET_MAX_POSITION_LIMIT \<equiv> MT ''EMC_AXIS_SET_MAX_POSITION_LIMIT''"
abbreviation MT_EMC_AXIS_SET_MIN_POSITION_LIMIT :: msg_type where "MT_EMC_AXIS_SET_MIN_POSITION_LIMIT \<equiv> MT ''EMC_AXIS_SET_MIN_POSITION_LIMIT''"
abbreviation MT_EMC_TASK_PLAN_SET_OPTIONAL_STOP :: msg_type where "MT_EMC_TASK_PLAN_SET_OPTIONAL_STOP \<equiv> MT ''EMC_TASK_PLAN_SET_OPTIONAL_STOP''"
abbreviation MT_EMC_TRAJ_SET_SO_ENABLE :: msg_type where "MT_EMC_TRAJ_SET_SO_ENABLE \<equiv> MT ''EMC_TRAJ_SET_SO_ENABLE''"
abbreviation MT_EMC_SPINDLE_ON :: msg_type where "MT_EMC_SPINDLE_ON \<equiv> MT ''EMC_SPINDLE_ON''"
abbreviation MT_EMC_SPINDLE_OFF :: msg_type where "MT_EMC_SPINDLE_OFF \<equiv> MT ''EMC_SPINDLE_OFF''"
abbreviation MT_EMC_SPINDLE_INCREASE :: msg_type where "MT_EMC_SPINDLE_INCREASE \<equiv> MT ''EMC_SPINDLE_INCREASE''"
abbreviation MT_EMC_SPINDLE_DECRESE :: msg_type where "MT_EMC_SPINDLE_DECRESE \<equiv> MT ''EMC_SPINDLE_DECRESE''"
abbreviation MT_EMC_SPINDLE_CONSTANT :: msg_type where "MT_EMC_SPINDLE_CONSTANT \<equiv> MT ''EMC_SPINDLE_CONSTANT''"
abbreviation MT_EMC_TRAJ_SET_SPINDLE_SCALE :: msg_type where "MT_EMC_TRAJ_SET_SPINDLE_SCALE \<equiv> MT ''EMC_TRAJ_SET_SPINDLE_SCALE''"
abbreviation MT_EMC_TRAJ_SET_TELEOP_ENABLE :: msg_type where "MT_EMC_TRAJ_SET_TELEOP_ENABLE \<equiv> MT ''EMC_TRAJ_SET_TELEOP_ENABLE''"
abbreviation MT_EMC_TRAJ_SET_TELEOP_VECTOR :: msg_type where "MT_EMC_TRAJ_SET_TELEOP_VECTOR \<equiv> MT ''EMC_TRAJ_SET_TELEOP_VECTOR''"
abbreviation MT_EMC_TOOL_SET_OFFSET :: msg_type where "MT_EMC_TOOL_SET_OFFSET \<equiv> MT ''EMC_TOOL_SET_OFFSET''"
abbreviation MT_EMC_TRAJ_SET_MODE :: msg_type where "MT_EMC_TRAJ_SET_MODE \<equiv> MT ''EMC_TRAJ_SET_MODE''"
abbreviation MT_EMC_AXIS_UNHOME :: msg_type where "MT_EMC_AXIS_UNHOME \<equiv> MT ''EMC_AXIS_UNHOME''"

text \<open>
  Values of message fields: the Python values that the caller hands to the command
  interface, and \<open>PEnum\<close> for a code of an enumeration of the schema, by its name.
\<close>

datatype pyval = PInt int | PFloat real | PStr string | PBool bool | PEnum string

text \<open>
  Modelled from the spec: the protobuf messages (\<open>EmcStatusMotion\<close>, the command
  parameter block, ...) come from the external serialization layer. A message is the list
  of the fields that are set; \<open>MergeFrom\<close> overwrites field by field and leaves
  the fields the argument does not set intact; \<open>Clear\<close> unsets every field.
\<close>

type_synonym message = "(string \<times> pyval) list"

definition MergeFrom :: "message \<Rightarrow> message \<Rightarrow> message" where
  "MergeFrom m d = fold (\<lambda>kv. AList.update (fst kv) (snd kv)) d m"

definition Clear :: message where
  "Clear = []"

text \<open>A scalar field that is not set reads as its default \<open>d\<close>.\<close>

definition get_field :: "message \<Rightarrow> string \<Rightarrow> pyval \<Rightarrow> pyval" where
  "get_field m k d = (case map_of m k of Some v \<Rightarrow> v | None \<Rightarrow> d)"

text \<open>
  The codes of \<open>status_pb2\<close> that \<open>update_running\<close> reads. The default of
  \<open>task_mode\<close> is taken to be the manual mode and that of \<open>interp_state\<close> the idle
  state, the first code of each enumeration.
\<close>

definition EMC_TASK_MODE_MANUAL :: pyval where
  "EMC_TASK_MODE_MANUAL = PEnum ''EMC_TASK_MODE_MANUAL''"

definition EMC_TASK_MODE_AUTO :: pyval where
  "EMC_TASK_MODE_AUTO = PEnum ''EMC_TASK_MODE_AUTO''"

definition EMC_TASK_MODE_MDI :: pyval where
  "EMC_TASK_MODE_MDI = PEnum ''EMC_TASK_MODE_MDI''"

definition EMC_TASK_INTERP_IDLE :: pyval where
  "EMC_TASK_INTERP_IDLE = PEnum ''EMC_TASK_INTERP_IDLE''"

record protocol_parameters =
  keepalive_timer :: int

text \<open>
  \<open>Container\<close>: the discriminator (field \<open>type\<close>), the note strings (field
  \<open>note\<close>), and the optional sub-messages; \<open>HasField f\<close> is \<open>f \<noteq> None\<close>.
  The command parameter block is present exactly when one of its fields is set.
  \<open>ParseFromString\<close> replaces the content of \<open>self.rx\<close>, so a handler takes the
  decoded message as an argument; \<open>self.tx\<close> is an attribute of the CommandClient.
\<close>

record container =
  mtype :: "msg_type option"
  note_list :: "string list"
  pparams :: "protocol_parameters option"
  emc_status_motion :: "message option"
  emc_status_config :: "message option"
  emc_status_io :: "message option"
  emc_status_task :: "message option"
  emc_status_interp :: "message option"
  interp_name :: "pyval option"
  emc_command_params :: message

definition Container :: container where
  "Container = \<lparr> mtype = None, note_list = [], pparams = None,
     emc_status_motion = None, emc_status_config = None, emc_status_io = None,
     emc_status_task = None, emc_status_interp = None,
     interp_name = None, emc_command_params = Clear \<rparr>"

text \<open>
  A \<open>threading.Timer\<close>: the interval it was created with (in milliseconds; the source
  passes \<open>interval / 1000\<close> seconds) and whether it is still pending, that is started
  and neither cancelled nor fired. An attribute holding a timer object is truthy also
  when the timer is no longer pending.
\<close>

datatype timer = Timer (interval: int) (pending: bool)

definition cancel :: "timer \<Rightarrow> timer" where
  "cancel t = Timer (interval t) False"

text \<open>
  Worker threads: the state of each \<open>threading.Thread\<close> of \<open>self.threads\<close>.
  \<open>start()\<close> on a thread that was started before and \<open>join()\<close> on a thread that
  was never started raise \<open>RuntimeError\<close>; the exception leaves the method with the
  attributes as they are at that point. \<open>join()\<close> on a started thread returns when
  the thread has ended; the source joins only after it has set the shutdown event, on
  which the loop of \<open>socket_worker\<close> ends.
\<close>

datatype thread = Unstarted | Started | Finished

text \<open>
  The exceptions that leave a method: \<open>RuntimeError\<close> from the threads, and
  \<open>TypeError\<close> and \<open>ValueError\<close> from an assignment to a message field that
  does not accept the value.
\<close>

datatype exn = RuntimeError | TypeError | ValueError

fun start_threads :: "thread list \<Rightarrow> thread list \<times> exn option" where
  "start_threads [] = ([], None)"
| "start_threads (t # ts) =
     (if t \<noteq> Unstarted then (t # ts, Some RuntimeError)
      else (case start_threads ts of (ts', r) \<Rightarrow> (Started # ts', r)))"

fun join_threads :: "thread list \<Rightarrow> thread list \<times> exn option" where
  "join_threads [] = ([], None)"
| "join_threads (t # ts) =
     (if t = Unstarted then (t # ts, Some RuntimeError)
      else (case join_threads ts of (ts', r) \<Rightarrow> (Finished # ts', r)))"

text \<open>
  The attributes that the three classes have in common (\<open>shutdown_event\<close> is named
  \<open>shutdown\<close> in two of them). The locks, the debug flag, the URIs and the ZeroMQ
  objects are left out: no method reads a value from them that changes what it does to
  the attributes below, apart from the printing under \<open>debug\<close>.
\<close>

record endpoint =
  threads :: "thread list"
  shutdown_event :: bool
  is_ready :: bool
  connected :: bool
  state :: conn_state
  sockets_connected :: bool

text \<open>
  The two subscribing classes: \<open>filters\<close> is the set of topics the SUB socket is
  subscribed to, changed by \<open>setsockopt(SUBSCRIBE / UNSUBSCRIBE)\<close>. The loops over
  \<open>self.channels\<close> and \<open>self.subscriptions\<close> run over Python sets; their effect does
  not depend on the order of iteration and is written as one set operation.
\<close>

record subscriber = endpoint +
  channels :: "string set"
  subscriptions :: "string set"
  filters :: "string set"

section \<open>ApplicationStatus\<close>

text \<open>
  \<open>mirror_io\<close>, ..., \<open>mirror_interp\<close> are the attributes \<open>_io\<close>, ...,
  \<open>_interp\<close>; \<open>status_channels\<close> is the set that \<open>__init__\<close> assigns to
  \<open>self.channels\<close>. Topics are Python strings.
\<close>

record status = subscriber +
  synced :: bool
  status_state :: sock_state
  running :: bool
  mirror_io :: message
  mirror_config :: message
  mirror_motion :: message
  mirror_task :: message
  mirror_interp :: message
  status_period :: int
  status_timer :: "timer option"
  synced_channels :: "string set"

definition status_channels :: "string set" where
  "status_channels = {''motion'', ''config'', ''io'', ''task'', ''interp''}"

definition ApplicationStatus :: status where
  "ApplicationStatus = \<lparr> threads = [], shutdown_event = False, is_ready = False,
     connected = False, state = Disconnected, sockets_connected = False,
     channels = status_channels,
     subscriptions = {}, filters = {},
     synced = False, status_state = Down, running = False,
     mirror_io = Clear, mirror_config = Clear, mirror_motion = Clear,
     mirror_task = Clear, mirror_interp = Clear,
     status_period = 0, status_timer = None, synced_channels = {} \<rparr>"

definition update_running :: "status \<Rightarrow> status" where
  "update_running s =
     s\<lparr>running :=
        (get_field (mirror_task s) ''task_mode'' EMC_TASK_MODE_MANUAL = EMC_TASK_MODE_AUTO
         \<or> get_field (mirror_task s) ''task_mode'' EMC_TASK_MODE_MANUAL = EMC_TASK_MODE_MDI)
        \<and> get_field (mirror_interp s) ''interp_state'' EMC_TASK_INTERP_IDLE
            = EMC_TASK_INTERP_IDLE\<rparr>"

definition update_motion :: "message \<Rightarrow> status \<Rightarrow> status" where
  "update_motion d s = s\<lparr>mirror_motion := MergeFrom (mirror_motion s) d\<rparr>"

definition update_config :: "message \<Rightarrow> status \<Rightarrow> status" where
  "update_config d s = s\<lparr>mirror_config := MergeFrom (mirror_config s) d\<rparr>"

definition update_io :: "message \<Rightarrow> status \<Rightarrow> status" where
  "update_io d s = s\<lparr>mirror_io := MergeFrom (mirror_io s) d\<rparr>"

definition update_task :: "message \<Rightarrow> status \<Rightarrow> status" where
  "update_task d s = update_running (s\<lparr>mirror_task := MergeFrom (mirror_task s) d\<rparr>)"

definition update_interp :: "message \<Rightarrow> status \<Rightarrow> status" where
  "update_interp d s = update_running (s\<lparr>mirror_interp := MergeFrom (mirror_interp s) d\<rparr>)"

definition update_sync :: "string \<Rightarrow> status \<Rightarrow> status" where
  "update_sync channel s =
     (let s1 = s\<lparr>synced_channels := insert channel (synced_channels s)\<rparr>
      in if synced_channels s1 = channels s1 then s1\<lparr>synced := True\<rparr> else s1)"

definition clear_sync :: "status \<Rightarrow> status" where
  "clear_sync s = s\<lparr>synced := False, synced_channels := {}\<rparr>"

definition start_status_heartbeat :: "int \<Rightarrow> status \<Rightarrow> status" where
  "start_status_heartbeat ival s =
     (let s1 = (case status_timer s of
                  Some t \<Rightarrow> s\<lparr>status_timer := Some (cancel t)\<rparr>
                | None \<Rightarrow> s);
          s2 = s1\<lparr>status_period := ival\<rparr>
      in if ival > 0 then s2\<lparr>status_timer := Some (Timer ival True)\<rparr> else s2)"

definition refresh_status_heartbeat :: "status \<Rightarrow> status" where
  "refresh_status_heartbeat s =
     (case status_timer s of
        Some t \<Rightarrow> s\<lparr>status_timer := Some (Timer (status_period s) True)\<rparr>
      | None \<Rightarrow> s)"

definition stop_status_heartbeat :: "status \<Rightarrow> status" where
  "stop_status_heartbeat s =
     (case status_timer s of Some t \<Rightarrow> s\<lparr>status_timer := None\<rparr> | None \<Rightarrow> s)"

definition clear_mirrors :: "status \<Rightarrow> status" where
  "clear_mirrors s = s\<lparr>mirror_motion := Clear, mirror_config := Clear, mirror_io := Clear,
     mirror_task := Clear, mirror_interp := Clear\<rparr>"

definition status_update_state :: "conn_state \<Rightarrow> status \<Rightarrow> status" where
  "status_update_state st s =
     (if st \<noteq> state s then
        (let s1 = s\<lparr>state := st\<rparr> in
         if st = Connected then s1\<lparr>connected := True\<rparr>
         else if connected s1 then
           (let s2 = (clear_sync (stop_status_heartbeat (s1\<lparr>connected := False\<rparr>)))
                       \<lparr>status_period := 0\<rparr>
            in if st \<noteq> Timeout then clear_mirrors s2 else s2)
         else s1)
      else s)"

definition status_timer_tick :: "status \<Rightarrow> status" where
  "status_timer_tick s = status_update_state Timeout (s\<lparr>status_state := Down\<rparr>)"

definition status_subscribe :: "status \<Rightarrow> status" where
  "status_subscribe s =
     s\<lparr>status_state := Trying,
       filters := filters s \<union> channels s,
       subscriptions := subscriptions s \<union> channels s\<rparr>"

definition status_unsubscribe :: "status \<Rightarrow> status" where
  "status_unsubscribe s =
     s\<lparr>status_state := Down,
       filters := filters s - subscriptions s,
       mirror_motion := (if ''motion'' \<in> subscriptions s then Clear else mirror_motion s),
       mirror_config := (if ''config'' \<in> subscriptions s then Clear else mirror_config s),
       mirror_io := (if ''io'' \<in> subscriptions s then Clear else mirror_io s),
       mirror_task := (if ''task'' \<in> subscriptions s then Clear else mirror_task s),
       mirror_interp := (if ''interp'' \<in> subscriptions s then Clear else mirror_interp s),
       subscriptions := {}\<rparr>"

definition status_connect_sockets :: "status \<Rightarrow> status \<times> bool" where
  "status_connect_sockets s = (s\<lparr>sockets_connected := True\<rparr>, True)"

definition status_disconnect_sockets :: "status \<Rightarrow> status" where
  "status_disconnect_sockets s =
     (if sockets_connected s then s\<lparr>sockets_connected := False\<rparr> else s)"

definition status_start :: "status \<Rightarrow> status \<times> exn option" where
  "status_start s =
     (let s1 = status_update_state Connecting (s\<lparr>status_state := Trying\<rparr>) in
      case status_connect_sockets s1 of
        (s2, ok) \<Rightarrow>
          if ok then
            (let s3 = s2\<lparr>shutdown_event := False, threads := threads s2 @ [Unstarted]\<rparr> in
             case start_threads (threads s3) of
               (ts, Some e) \<Rightarrow> (s3\<lparr>threads := ts\<rparr>, Some e)
             | (ts, None) \<Rightarrow> (status_subscribe (s3\<lparr>threads := ts\<rparr>), None))
          else (s2, None))"

definition status_cleanup :: "status \<Rightarrow> status" where
  "status_cleanup s =
     (let s1 = (if connected s then status_unsubscribe s else s)
      in (status_disconnect_sockets s1)\<lparr>subscriptions := {}\<rparr>)"

definition status_stop :: "status \<Rightarrow> status \<times> exn option" where
  "status_stop s =
     (let s1 = s\<lparr>is_ready := False, shutdown_event := True\<rparr> in
      case join_threads (threads s1) of
        (ts, Some e) \<Rightarrow> (s1\<lparr>threads := ts\<rparr>, Some e)
      | (ts, None) \<Rightarrow> (status_update_state Disconnected (status_cleanup (s1\<lparr>threads := []\<rparr>)), None))"

definition status_ready :: "status \<Rightarrow> status \<times> exn option" where
  "status_ready s =
     (if \<not> is_ready s then status_start (s\<lparr>is_ready := True\<rparr>) else (s, None))"


text \<open>
  \<open>process_status\<close>: \<open>topic\<close> and \<open>rx\<close> are the two frames of the received
  message, the second one decoded. \<open>recv_motion\<close>, ..., \<open>recv_interp\<close> are the
  five \<open>if\<close> blocks that \<open>process_status\<close> runs, in this order, on a full or an
  incremental update.
\<close>

definition recv_motion :: "string \<Rightarrow> container \<Rightarrow> status \<Rightarrow> status" where
  "recv_motion topic rx s =
     (case emc_status_motion rx of
        Some d \<Rightarrow>
          if topic = ''motion'' then
            (let s1 = update_motion d s in
             if mtype rx = Some MT_EMCSTAT_FULL_UPDATE then update_sync ''motion'' s1 else s1)
          else s
      | None \<Rightarrow> s)"

definition recv_config :: "string \<Rightarrow> container \<Rightarrow> status \<Rightarrow> status" where
  "recv_config topic rx s =
     (case emc_status_config rx of
        Some d \<Rightarrow>
          if topic = ''config'' then
            (let s1 = update_config d s in
             if mtype rx = Some MT_EMCSTAT_FULL_UPDATE then update_sync ''config'' s1 else s1)
          else s
      | None \<Rightarrow> s)"

definition recv_io :: "string \<Rightarrow> container \<Rightarrow> status \<Rightarrow> status" where
  "recv_io topic rx s =
     (case emc_status_io rx of
        Some d \<Rightarrow>
          if topic = ''io'' then
            (let s1 = update_io d s in
             if mtype rx = Some MT_EMCSTAT_FULL_UPDATE then update_sync ''io'' s1 else s1)
          else s
      | None \<Rightarrow> s)"

definition recv_task :: "string \<Rightarrow> container \<Rightarrow> status \<Rightarrow> status" where
  "recv_task topic rx s =
     (case emc_status_task rx of
        Some d \<Rightarrow>
          if topic = ''task'' then
            (let s1 = update_task d s in
             if mtype rx = Some MT_EMCSTAT_FULL_UPDATE then update_sync ''task'' s1 else s1)
          else s
      | None \<Rightarrow> s)"

definition recv_interp :: "string \<Rightarrow> container \<Rightarrow> status \<Rightarrow> status" where
  "recv_interp topic rx s =
     (case emc_status_interp rx of
        Some d \<Rightarrow>
          if topic = ''interp'' then
            (let s1 = update_interp d s in
             if mtype rx = Some MT_EMCSTAT_FULL_UPDATE then update_sync ''interp'' s1 else s1)
          else s
      | None \<Rightarrow> s)"

definition process_status :: "string \<Rightarrow> container \<Rightarrow> status \<Rightarrow> status" where
  "process_status topic rx s =
     (if mtype rx = Some MT_EMCSTAT_FULL_UPDATE
         \<or> mtype rx = Some MT_EMCSTAT_INCREMENTAL_UPDATE then
        (let s5 = recv_interp topic rx (recv_task topic rx (recv_io topic rx
                    (recv_config topic rx (recv_motion topic rx s))))
         in if mtype rx = Some MT_EMCSTAT_FULL_UPDATE then
              (let s6 = (if status_state s5 \<noteq> Up
                         then status_update_state Connected (s5\<lparr>status_state := Up\<rparr>)
                         else s5)
               in case pparams rx of
                    Some p \<Rightarrow> start_status_heartbeat (keepalive_timer p * 2) s6
                  | None \<Rightarrow> s6)
            else refresh_status_heartbeat s5)
      else if mtype rx = Some MT_PING then
        (if status_state s = Up then refresh_status_heartbeat s
         else status_subscribe (status_unsubscribe (status_update_state Connecting s)))
      else s)"

text \<open>
  What can happen to a StatusClient: the application calls \<open>start\<close>, \<open>stop\<close> or
  \<open>ready\<close> (an exception goes to the caller, the object stays as the method left
  it); the worker takes a message from the socket, which it does only while a started
  thread runs the loop of \<open>socket_worker\<close> and the shutdown event is not set; a
  pending keepalive timer fires.
\<close>

datatype status_event =
    StatusStart | StatusStop | StatusReady
  | StatusReceive string container
  | StatusTimerExpired

definition worker_running :: "'a endpoint_scheme \<Rightarrow> bool" where
  "worker_running s = (Started \<in> set (threads s) \<and> \<not> shutdown_event s)"

definition status_step :: "status \<Rightarrow> status_event \<Rightarrow> status" where
  "status_step s ev =
     (case ev of
        StatusStart \<Rightarrow> fst (status_start s)
      | StatusStop \<Rightarrow> fst (status_stop s)
      | StatusReady \<Rightarrow> fst (status_ready s)
      | StatusReceive topic rx \<Rightarrow>
          if worker_running s then process_status topic rx s else s
      | StatusTimerExpired \<Rightarrow>
          (case status_timer s of
             Some t \<Rightarrow>
               if pending t then status_timer_tick (s\<lparr>status_timer := Some (cancel t)\<rparr>)
               else s
           | None \<Rightarrow> s))"

definition status_run :: "status_event list \<Rightarrow> status" where
  "status_run evs = foldl status_step ApplicationStatus evs"


section \<open>ApplicationCommand\<close>

text \<open>
  \<open>sent\<close> lists the containers handed to \<open>command_socket.send\<close>, oldest first.
  The send is non-blocking and its outcome is not looked at by the source.
\<close>

record command = endpoint +
  command_state :: sock_state
  heartbeat_period :: int
  ping_error_count :: int
  ping_error_threshold :: int
  heartbeat_timer :: "timer option"
  tx :: container
  sent :: "container list"

definition RELEASE_BRAKE :: int where "RELEASE_BRAKE = 0"
definition ENGAGE_BRAKE :: int where "ENGAGE_BRAKE = 1"

definition STOP_JOG :: int where "STOP_JOG = 0"
definition CONTINOUS_JOG :: int where "CONTINOUS_JOG = 1"
definition INCREMENT_JOG :: int where "INCREMENT_JOG = 2"

definition SPINDLE_FORWARD :: int where "SPINDLE_FORWARD = 0"
definition SPINDLE_REVERSE :: int where "SPINDLE_REVERSE = 1"
definition SPINDLE_OFF :: int where "SPINDLE_OFF = 2"
definition SPINDLE_DECREASE :: int where "SPINDLE_DECREASE = 3"
definition SPINDLE_INCREASE :: int where "SPINDLE_INCREASE = 4"
definition SPINDLE_CONSTANT :: int where "SPINDLE_CONSTANT = 5"

definition ApplicationCommand :: command where
  "ApplicationCommand = \<lparr> threads = [], shutdown_event = False, is_ready = False,
     connected = False, state = Disconnected, sockets_connected = False,
     command_state = Down, heartbeat_period = 3000, ping_error_count = 0,
     ping_error_threshold = 2, heartbeat_timer = None, tx = Container, sent = [] \<rparr>"

definition send_command_msg :: "msg_type \<Rightarrow> command \<Rightarrow> command" where
  "send_command_msg msg_type s =
     (let s1 = s\<lparr>tx := (tx s)\<lparr>mtype := Some msg_type\<rparr>\<rparr>;
          s2 = s1\<lparr>sent := sent s1 @ [tx s1]\<rparr>
      in s2\<lparr>tx := Container\<rparr>)"

definition command_update_state :: "conn_state \<Rightarrow> command \<Rightarrow> command" where
  "command_update_state st s =
     (if st \<noteq> state s then
        (let s1 = s\<lparr>state := st\<rparr> in
         if st = Connected then s1\<lparr>connected := True\<rparr>
         else if connected s1 then s1\<lparr>connected := False\<rparr>
         else s1)
      else s)"

definition update_error :: "string \<Rightarrow> string list \<Rightarrow> command \<Rightarrow> command" where
  "update_error err description s = s"

text \<open>
  In \<open>process_command\<close> the test for \<open>MT_ERROR\<close> is the \<open>elif\<close> of the inner
  \<open>if\<close>, under the test for \<open>MT_PING_ACKNOWLEDGE\<close>.
\<close>

definition process_command :: "container \<Rightarrow> command \<Rightarrow> command" where
  "process_command rx s =
     (if mtype rx = Some MT_PING_ACKNOWLEDGE then
        (let s1 = s\<lparr>ping_error_count := 0\<rparr> in
         if command_state s1 \<noteq> Up then
           command_update_state Connected (s1\<lparr>command_state := Up\<rparr>)
         else if mtype rx = Some MT_ERROR then update_error ''Service'' (note_list rx) s1
         else s1)
      else s)"

definition command_heartbeat_timer_tick :: "command \<Rightarrow> command" where
  "command_heartbeat_timer_tick s =
     (let s1 = s\<lparr>ping_error_count := ping_error_count s + 1\<rparr>;
          s2 = (if ping_error_count s1 > ping_error_threshold s1
                then command_update_state Timeout (s1\<lparr>command_state := Trying\<rparr>)
                else s1);
          s3 = send_command_msg MT_PING s2
      in s3\<lparr>heartbeat_timer := Some (Timer (heartbeat_period s3) True)\<rparr>)"

definition start_command_heartbeat :: "command \<Rightarrow> command" where
  "start_command_heartbeat s =
     (if \<not> connected s then s
      else
        (let s1 = s\<lparr>ping_error_count := 0\<rparr> in
         if heartbeat_period s1 > 0
         then s1\<lparr>heartbeat_timer := Some (Timer (heartbeat_period s1) True)\<rparr>
         else s1))"

definition stop_command_heartbeat :: "command \<Rightarrow> command" where
  "stop_command_heartbeat s =
     (case heartbeat_timer s of Some t \<Rightarrow> s\<lparr>heartbeat_timer := None\<rparr> | None \<Rightarrow> s)"

definition command_connect_sockets :: "command \<Rightarrow> command \<times> bool" where
  "command_connect_sockets s = (s\<lparr>sockets_connected := True\<rparr>, True)"

definition command_disconnect_sockets :: "command \<Rightarrow> command" where
  "command_disconnect_sockets s =
     (if sockets_connected s then s\<lparr>sockets_connected := False\<rparr> else s)"

definition command_start :: "command \<Rightarrow> command \<times> exn option" where
  "command_start s =
     (let s1 = command_update_state Connecting (s\<lparr>command_state := Trying\<rparr>) in
      case command_connect_sockets s1 of
        (s2, ok) \<Rightarrow>
          if ok then
            (let s3 = s2\<lparr>shutdown_event := False, threads := threads s2 @ [Unstarted]\<rparr> in
             case start_threads (threads s3) of
               (ts, Some e) \<Rightarrow> (s3\<lparr>threads := ts\<rparr>, Some e)
             | (ts, None) \<Rightarrow>
                 (send_command_msg MT_PING (start_command_heartbeat (s3\<lparr>threads := ts\<rparr>)),
                  None))
          else (s2, None))"

definition command_cleanup :: "command \<Rightarrow> command" where
  "command_cleanup s = command_disconnect_sockets (stop_command_heartbeat s)"

definition command_stop :: "command \<Rightarrow> command \<times> exn option" where
  "command_stop s =
     (let s1 = s\<lparr>is_ready := False, shutdown_event := True\<rparr> in
      case join_threads (threads s1) of
        (ts, Some e) \<Rightarrow> (s1\<lparr>threads := ts\<rparr>, Some e)
      | (ts, None) \<Rightarrow>
          (command_update_state Disconnected (command_cleanup (s1\<lparr>threads := []\<rparr>)), None))"

definition command_ready :: "command \<Rightarrow> command \<times> exn option" where
  "command_ready s =
     (if \<not> is_ready s then command_start (s\<lparr>is_ready := True\<rparr>) else (s, None))"

subsection \<open>The command operations\<close>

text \<open>
  \<open>set_param k v\<close> is the assignment \<open>self.tx.emc_command_params.k = v\<close> (the
  fields of the nested \<open>pose\<close> and \<open>tool_data\<close> blocks under dotted names),
  \<open>set_interp_name v\<close> is \<open>self.tx.interp_name = v\<close>, \<open>clear_tx\<close> is
  \<open>self.tx.Clear()\<close>. The schema of the container is not part of application.py.
  An assignment of a value that the field does not accept raises and leaves the field as
  it was; the operations take arguments of the types of their fields, and are modelled
  for the values that those fields accept. The exception is \<open>set_debug_level\<close>,
  which assigns its number also to the string field \<open>interp_name\<close>.
\<close>

definition set_param :: "string \<Rightarrow> pyval \<Rightarrow> command \<Rightarrow> command" where
  "set_param k v s =
     s\<lparr>tx := (tx s)\<lparr>emc_command_params := AList.update k v (emc_command_params (tx s))\<rparr>\<rparr>"

definition set_interp_name :: "pyval \<Rightarrow> command \<Rightarrow> command" where
  "set_interp_name v s = s\<lparr>tx := (tx s)\<lparr>interp_name := Some v\<rparr>\<rparr>"

definition clear_tx :: "command \<Rightarrow> command" where
  "clear_tx s = s\<lparr>tx := Container\<rparr>"

definition abort :: "string \<Rightarrow> command \<Rightarrow> command" where
  "abort interpreter s =
     (if \<not> connected s then s
      else send_command_msg MT_EMC_TASK_ABORT (set_interp_name (PStr interpreter) s))"

definition run_program :: "string \<Rightarrow> int \<Rightarrow> command \<Rightarrow> command" where
  "run_program interpreter line_number s =
     (if \<not> connected s then s
      else send_command_msg MT_EMC_TASK_PLAN_RUN
             (set_interp_name (PStr interpreter) (set_param ''line_number'' (PInt line_number) s)))"

definition pause_program :: "string \<Rightarrow> command \<Rightarrow> command" where
  "pause_program interpreter s =
     (if \<not> connected s then s
      else send_command_msg MT_EMC_TASK_PLAN_PAUSE (set_interp_name (PStr interpreter) s))"

definition step_program :: "string \<Rightarrow> command \<Rightarrow> command" where
  "step_program interpreter s =
     (if \<not> connected s then s
      else send_command_msg MT_EMC_TASK_PLAN_STEP (set_interp_name (PStr interpreter) s))"

definition resume_program :: "string \<Rightarrow> command \<Rightarrow> command" where
  "resume_program interpreter s =
     (if \<not> connected s then s
      else send_command_msg MT_EMC_TASK_RESUME (set_interp_name (PStr interpreter) s))"

definition reset_program :: "string \<Rightarrow> command \<Rightarrow> command" where
  "reset_program interpreter s =
     (if \<not> connected s then s
      else send_command_msg MT_EMC_TASK_PLAN_INIT (set_interp_name (PStr interpreter) s))"

definition set_task_mode :: "string \<Rightarrow> int \<Rightarrow> command \<Rightarrow> command" where
  "set_task_mode interpreter mode s =
     (if \<not> connected s then s
      else send_command_msg MT_EMC_TASK_SET_MODE
             (set_interp_name (PStr interpreter) (set_param ''task_mode'' (PInt mode) s)))"

definition set_task_state :: "string \<Rightarrow> int \<Rightarrow> command \<Rightarrow> command" where
  "set_task_state interpreter st s =
     (if \<not> connected s then s
      else send_command_msg MT_EMC_TASK_SET_STATE
             (set_interp_name (PStr interpreter) (set_param ''task_state'' (PInt st) s)))"

definition open_program :: "string \<Rightarrow> string \<Rightarrow> command \<Rightarrow> command" where
  "open_program interpreter file_name s =
     (if \<not> connected s then s
      else send_command_msg MT_EMC_TASK_PLAN_OPEN
             (set_interp_name (PStr interpreter) (set_param ''path'' (PStr file_name) s)))"

definition execute_mdi :: "string \<Rightarrow> string \<Rightarrow> command \<Rightarrow> command" where
  "execute_mdi interpreter cmd s =
     (if \<not> connected s then s
      else send_command_msg MT_EMC_TASK_PLAN_EXECUTE
             (set_interp_name (PStr interpreter) (set_param ''command'' (PStr cmd) s)))"

definition set_spindle_brake :: "int \<Rightarrow> command \<Rightarrow> command" where
  "set_spindle_brake brake s =
     (if \<not> connected s then s
      else if brake = ENGAGE_BRAKE then send_command_msg MT_EMC_SPINDLE_BRAKE_ENGAGE s
      else if brake = RELEASE_BRAKE then send_command_msg MT_EMC_SPINDLE_BRAKE_RELEASE s
      else s)"

text \<open>
  \<open>set_debug_level\<close> assigns \<open>debug_level\<close> to \<open>params.debug_level\<close>, an
  unsigned 32-bit field, and then to \<open>self.tx.interp_name\<close>, a string field. A
  number outside the range of the first field is refused there, with \<open>ValueError\<close>;
  a number inside it is stored, and the second assignment raises \<open>TypeError\<close>. So
  the call never reaches \<open>send_command_msg\<close>, and after the \<open>TypeError\<close> the
  container keeps the field \<open>debug_level\<close>.
\<close>

definition set_debug_level :: "int \<Rightarrow> command \<Rightarrow> command \<times> exn option" where
  "set_debug_level debug_level s =
     (if \<not> connected s then (s, None)
      else if 0 \<le> debug_level \<and> debug_level < 2 ^ 32 then
        (set_param ''debug_level'' (PInt debug_level) s, Some TypeError)
      else (s, Some ValueError))"

definition set_feed_override :: "real \<Rightarrow> command \<Rightarrow> command" where
  "set_feed_override scale s =
     (if \<not> connected s then s
      else send_command_msg MT_EMC_TRAJ_SET_SCALE (set_param ''scale'' (PFloat scale) s))"

definition set_flood_enabled :: "bool \<Rightarrow> command \<Rightarrow> command" where
  "set_flood_enabled enable s =
     (if \<not> connected s then s
      else if enable then send_command_msg MT_EMC_COOLANT_FLOOD_ON s
      else send_command_msg MT_EMC_COOLANT_FLOOD_OFF s)"

definition home_axis :: "int \<Rightarrow> command \<Rightarrow> command" where
  "home_axis index s =
     (if \<not> connected s then s
      else send_command_msg MT_EMC_AXIS_HOME (set_param ''index'' (PInt index) s))"

definition jog :: "int \<Rightarrow> int \<Rightarrow> real \<Rightarrow> real \<Rightarrow> command \<Rightarrow> command" where
  "jog jog_type axis velocity distance s =
     (if \<not> connected s then s
      else
        (let s1 = set_param ''index'' (PInt axis) s in
         if jog_type = STOP_JOG then send_command_msg MT_EMC_AXIS_ABORT s1
         else if jog_type = CONTINOUS_JOG then
           send_command_msg MT_EMC_AXIS_JOG (set_param ''velocity'' (PFloat velocity) s1)
         else if jog_type = INCREMENT_JOG then
           send_command_msg MT_EMC_AXIS_INCR_JOG
             (set_param ''distance'' (PFloat distance)
                (set_param ''velocity'' (PFloat velocity) s1))
         else clear_tx s1))"

definition load_tool_table :: "command \<Rightarrow> command" where
  "load_tool_table s =
     (if \<not> connected s then s else send_command_msg MT_EMC_TOOL_LOAD_TOOL_TABLE s)"

definition set_maximum_velocity :: "real \<Rightarrow> command \<Rightarrow> command" where
  "set_maximum_velocity velocity s =
     (if \<not> connected s then s
      else send_command_msg MT_EMC_TRAJ_SET_MAX_VELOCITY
             (set_param ''velocity'' (PFloat velocity) s))"

definition set_mist_enabled :: "bool \<Rightarrow> command \<Rightarrow> command" where
  "set_mist_enabled enable s =
     (if \<not> connected s then s
      else if enable then send_command_msg MT_EMC_COOLANT_MIST_ON s
      else send_command_msg MT_EMC_COOLANT_MIST_OFF s)"

definition override_limits :: "command \<Rightarrow> command" where
  "override_limits s =
     (if \<not> connected s then s else send_command_msg MT_EMC_AXIS_OVERRIDE_LIMITS s)"

definition set_adaptive_feed_enabled :: "bool \<Rightarrow> command \<Rightarrow> command" where
  "set_adaptive_feed_enabled enable s =
     (if \<not> connected s then s
      else send_command_msg MT_EMC_MOTION_ADAPTIVE (set_param ''enable'' (PBool enable) s))"

definition set_analog_output :: "int \<Rightarrow> real \<Rightarrow> command \<Rightarrow> command" where
  "set_analog_output index v s =
     (if \<not> connected s then s
      else send_command_msg MT_EMC_MOTION_SET_AOUT
             (set_param ''value'' (PFloat v) (set_param ''index'' (PInt index) s)))"

definition set_block_delete_enabled :: "bool \<Rightarrow> command \<Rightarrow> command" where
  "set_block_delete_enabled enable s =
     (if \<not> connected s then s
      else send_command_msg MT_EMC_TASK_PLAN_SET_BLOCK_DELETE
             (set_param ''enable'' (PBool enable) s))"

definition set_digital_output :: "int \<Rightarrow> bool \<Rightarrow> command \<Rightarrow> command" where
  "set_digital_output index enable s =
     (if \<not> connected s then s
      else send_command_msg MT_EMC_MOTION_SET_DOUT
             (set_param ''enable'' (PBool enable) (set_param ''index'' (PInt index) s)))"

definition set_feed_hold_enabled :: "bool \<Rightarrow> command \<Rightarrow> command" where
  "set_feed_hold_enabled enable s =
     (if \<not> connected s then s
      else send_command_msg MT_EMC_TRAJ_SET_FH_ENABLE (set_param ''enable'' (PBool enable) s))"

definition set_feed_override_enabled :: "bool \<Rightarrow> command \<Rightarrow> command" where
  "set_feed_override_enabled enable s =
     (if \<not> connected s then s
      else send_command_msg MT_EMC_TRAJ_SET_FO_ENABLE (set_param ''enable'' (PBool enable) s))"

definition set_axis_max_position_limit :: "int \<Rightarrow> real \<Rightarrow> command \<Rightarrow> command" where
  "set_axis_max_position_limit axis v s =
     (if \<not> connected s then s
      else send_command_msg MT_EMC_AXIS_SET_MAX_POSITION_LIMIT
             (set_param ''value'' (PFloat v) (set_param ''index'' (PInt axis) s)))"

definition set_axis_min_position_limit :: "int \<Rightarrow> real \<Rightarrow> command \<Rightarrow> command" where
  "set_axis_min_position_limit axis v s =
     (if \<not> connected s then s
      else send_command_msg MT_EMC_AXIS_SET_MIN_POSITION_LIMIT
             (set_param ''value'' (PFloat v) (set_param ''index'' (PInt axis) s)))"

definition set_optional_stop_enabled :: "bool \<Rightarrow> command \<Rightarrow> command" where
  "set_optional_stop_enabled enable s =
     (if \<not> connected s then s
      else send_command_msg MT_EMC_TASK_PLAN_SET_OPTIONAL_STOP
             (set_param ''enable'' (PBool enable) s))"

definition set_spindle_override_enabled :: "bool \<Rightarrow> command \<Rightarrow> command" where
  "set_spindle_override_enabled enable s =
     (if \<not> connected s then s
      else send_command_msg MT_EMC_TRAJ_SET_SO_ENABLE (set_param ''enable'' (PBool enable) s))"

definition set_spindle :: "int \<Rightarrow> real \<Rightarrow> command \<Rightarrow> command" where
  "set_spindle mode velocity s =
     (if \<not> connected s then s
      else if mode = SPINDLE_FORWARD then
        send_command_msg MT_EMC_SPINDLE_ON (set_param ''velocity'' (PFloat velocity) s)
      else if mode = SPINDLE_REVERSE then
        send_command_msg MT_EMC_SPINDLE_ON (set_param ''velocity'' (PFloat (velocity * - 1)) s)
      else if mode = SPINDLE_OFF then send_command_msg MT_EMC_SPINDLE_OFF s
      else if mode = SPINDLE_INCREASE then send_command_msg MT_EMC_SPINDLE_INCREASE s
      else if mode = SPINDLE_DECREASE then send_command_msg MT_EMC_SPINDLE_DECRESE s
      else if mode = SPINDLE_CONSTANT then send_command_msg MT_EMC_SPINDLE_CONSTANT s
      else clear_tx s)"

definition set_spindle_override :: "real \<Rightarrow> command \<Rightarrow> command" where
  "set_spindle_override scale s =
     (if \<not> connected s then s
      else send_command_msg MT_EMC_TRAJ_SET_SPINDLE_SCALE (set_param ''scale'' (PFloat scale) s))"

definition set_teleop_enabled :: "bool \<Rightarrow> command \<Rightarrow> command" where
  "set_teleop_enabled enable s =
     (if \<not> connected s then s
      else send_command_msg MT_EMC_TRAJ_SET_TELEOP_ENABLE
             (set_param ''enable'' (PBool enable) s))"

definition set_teleop_vector ::
  "real \<Rightarrow> real \<Rightarrow> real \<Rightarrow> real \<Rightarrow> real \<Rightarrow> real \<Rightarrow> command \<Rightarrow> command" where
  "set_teleop_vector a b c u v w s =
     (if \<not> connected s then s
      else send_command_msg MT_EMC_TRAJ_SET_TELEOP_VECTOR
             (set_param ''pose.w'' (PFloat w) (set_param ''pose.v'' (PFloat v)
             (set_param ''pose.u'' (PFloat u) (set_param ''pose.c'' (PFloat c)
             (set_param ''pose.b'' (PFloat b) (set_param ''pose.a'' (PFloat a) s)))))))"

definition set_tool_offset ::
  "int \<Rightarrow> real \<Rightarrow> real \<Rightarrow> real \<Rightarrow> real \<Rightarrow> real \<Rightarrow> int \<Rightarrow> command \<Rightarrow> command" where
  "set_tool_offset index zoffset xoffset diameter frontangle backangle orientation s =
     (if \<not> connected s then s
      else send_command_msg MT_EMC_TOOL_SET_OFFSET
             (set_param ''tool_data.orientation'' (PInt orientation)
             (set_param ''tool_data.backangle'' (PFloat backangle)
             (set_param ''tool_data.frontangle'' (PFloat frontangle)
             (set_param ''tool_data.diameter'' (PFloat diameter)
             (set_param ''tool_data.xoffset'' (PFloat xoffset)
             (set_param ''tool_data.zoffset'' (PFloat zoffset)
             (set_param ''tool_data.index'' (PInt index) s))))))))"

definition set_trajectory_mode :: "int \<Rightarrow> command \<Rightarrow> command" where
  "set_trajectory_mode mode s =
     (if \<not> connected s then s
      else send_command_msg MT_EMC_TRAJ_SET_MODE (set_param ''traj_mode'' (PInt mode) s))"

definition unhome_axis :: "int \<Rightarrow> command \<Rightarrow> command" where
  "unhome_axis index s =
     (if \<not> connected s then s
      else send_command_msg MT_EMC_AXIS_UNHOME (set_param ''index'' (PInt index) s))"

definition shutdown :: "command \<Rightarrow> command" where
  "shutdown s = (if \<not> connected s then s else send_command_msg MT_SHUTDOWN s)"


text \<open>
  A call of one of the public command operations, with its arguments; \<open>invoke\<close> gives
  the object as the call leaves it, an exception going to the caller.
\<close>

datatype (plugins only: code) command_call =
    Abort string
  | Run_program string int
  | Pause_program string
  | Step_program string
  | Resume_program string
  | Reset_program string
  | Set_task_mode string int
  | Set_task_state string int
  | Open_program string string
  | Execute_mdi string string
  | Set_spindle_brake int
  | Set_debug_level int
  | Set_feed_override real
  | Set_flood_enabled bool
  | Home_axis int
  | Jog int int real real
  | Load_tool_table
  | Set_maximum_velocity real
  | Set_mist_enabled bool
  | Override_limits
  | Set_adaptive_feed_enabled bool
  | Set_analog_output int real
  | Set_block_delete_enabled bool
  | Set_digital_output int bool
  | Set_feed_hold_enabled bool
  | Set_feed_override_enabled bool
  | Set_axis_max_position_limit int real
  | Set_axis_min_position_limit int real
  | Set_optional_stop_enabled bool
  | Set_spindle_override_enabled bool
  | Set_spindle int real
  | Set_spindle_override real
  | Set_teleop_enabled bool
  | Set_teleop_vector real real real real real real
  | Set_tool_offset int real real real real real int
  | Set_trajectory_mode int
  | Unhome_axis int
  | Shutdown

fun invoke :: "command_call \<Rightarrow> command \<Rightarrow> command" where
  "invoke (Abort i) = abort i"
| "invoke (Run_program i n) = run_program i n"
| "invoke (Pause_program i) = pause_program i"
| "invoke (Step_program i) = step_program i"
| "invoke (Resume_program i) = resume_program i"
| "invoke (Reset_program i) = reset_program i"
| "invoke (Set_task_mode i m) = set_task_mode i m"
| "invoke (Set_task_state i st) = set_task_state i st"
| "invoke (Open_program i f) = open_program i f"
| "invoke (Execute_mdi i c) = execute_mdi i c"
| "invoke (Set_spindle_brake b) = set_spindle_brake b"
| "invoke (Set_debug_level l) = (\<lambda>s. fst (set_debug_level l s))"
| "invoke (Set_feed_override x) = set_feed_override x"
| "invoke (Set_flood_enabled e) = set_flood_enabled e"
| "invoke (Home_axis n) = home_axis n"
| "invoke (Jog k a v d) = jog k a v d"
| "invoke Load_tool_table = load_tool_table"
| "invoke (Set_maximum_velocity v) = set_maximum_velocity v"
| "invoke (Set_mist_enabled e) = set_mist_enabled e"
| "invoke Override_limits = override_limits"
| "invoke (Set_adaptive_feed_enabled e) = set_adaptive_feed_enabled e"
| "invoke (Set_analog_output n v) = set_analog_output n v"
| "invoke (Set_block_delete_enabled e) = set_block_delete_enabled e"
| "invoke (Set_digital_output n e) = set_digital_output n e"
| "invoke (Set_feed_hold_enabled e) = set_feed_hold_enabled e"
| "invoke (Set_feed_override_enabled e) = set_feed_override_enabled e"
| "invoke (Set_axis_max_position_limit a v) = set_axis_max_position_limit a v"
| "invoke (Set_axis_min_position_limit a v) = set_axis_min_position_limit a v"
| "invoke (Set_optional_stop_enabled e) = set_optional_stop_enabled e"
| "invoke (Set_spindle_override_enabled e) = set_spindle_override_enabled e"
| "invoke (Set_spindle m v) = set_spindle m v"
| "invoke (Set_spindle_override x) = set_spindle_override x"
| "invoke (Set_teleop_enabled e) = set_teleop_enabled e"
| "invoke (Set_teleop_vector a b c u v w) = set_teleop_vector a b c u v w"
| "invoke (Set_tool_offset n z x d fa ba ori) = set_tool_offset n z x d fa ba ori"
| "invoke (Set_trajectory_mode m) = set_trajectory_mode m"
| "invoke (Unhome_axis n) = unhome_axis n"
| "invoke Shutdown = shutdown"

text \<open>
  What can happen to a CommandClient: a lifecycle call, a command operation, a reply
  taken from the socket by the running worker, the pending heartbeat timer firing.
\<close>

datatype command_event =
    CommandStart | CommandStop | CommandReady
  | CommandCall command_call
  | CommandReceive container
  | CommandTimerExpired

definition command_step :: "command \<Rightarrow> command_event \<Rightarrow> command" where
  "command_step s ev =
     (case ev of
        CommandStart \<Rightarrow> fst (command_start s)
      | CommandStop \<Rightarrow> fst (command_stop s)
      | CommandReady \<Rightarrow> fst (command_ready s)
      | CommandCall c \<Rightarrow> invoke c s
      | CommandReceive rx \<Rightarrow> if worker_running s then process_command rx s else s
      | CommandTimerExpired \<Rightarrow>
          (case heartbeat_timer s of
             Some t \<Rightarrow>
               if pending t
               then command_heartbeat_timer_tick (s\<lparr>heartbeat_timer := Some (cancel t)\<rparr>)
               else s
           | None \<Rightarrow> s))"

definition command_run :: "command_event list \<Rightarrow> command" where
  "command_run evs = foldl command_step ApplicationCommand evs"

section \<open>ApplicationError\<close>

text \<open>
  An entry of the error buffer is a Python dict \<open>{'type': ..., 'notes': [...]}\<close>.
  \<open>process_error\<close> creates one dict per message, extends its list of notes in
  place and appends the dict itself to \<open>error_list\<close>, so the list holds references:
  \<open>heap\<close> is the store of the dicts created so far (the address of a dict is its
  index), \<open>error_list\<close> the list of addresses.
\<close>

record error_entry =
  entry_type :: "msg_type option"
  entry_notes :: "string list"

record error_client = subscriber +
  socket_state :: sock_state
  error_list :: "nat list"
  heap :: "error_entry list"
  error_period :: int
  error_timer :: "timer option"

definition error_channels :: "string set" where
  "error_channels = {''error'', ''text'', ''display''}"

definition ApplicationError :: error_client where
  "ApplicationError = \<lparr> threads = [], shutdown_event = False, is_ready = False,
     connected = False, state = Disconnected, sockets_connected = False,
     channels = error_channels, subscriptions = {}, filters = {},
     socket_state = Down, error_list = [], heap = [],
     error_period = 0, error_timer = None \<rparr>"

definition start_error_heartbeat :: "int \<Rightarrow> error_client \<Rightarrow> error_client" where
  "start_error_heartbeat ival s =
     (let s1 = (case error_timer s of
                  Some t \<Rightarrow> s\<lparr>error_timer := Some (cancel t)\<rparr>
                | None \<Rightarrow> s);
          s2 = s1\<lparr>error_period := ival\<rparr>
      in if ival > 0 then s2\<lparr>error_timer := Some (Timer ival True)\<rparr> else s2)"

definition refresh_error_heartbeat :: "error_client \<Rightarrow> error_client" where
  "refresh_error_heartbeat s =
     (case error_timer s of
        Some t \<Rightarrow> s\<lparr>error_timer := Some (Timer (error_period s) True)\<rparr>
      | None \<Rightarrow> s)"

definition stop_error_heartbeat :: "error_client \<Rightarrow> error_client" where
  "stop_error_heartbeat s =
     (case error_timer s of Some t \<Rightarrow> s\<lparr>error_timer := None\<rparr> | None \<Rightarrow> s)"

definition error_update_state :: "conn_state \<Rightarrow> error_client \<Rightarrow> error_client" where
  "error_update_state st s =
     (if st \<noteq> state s then
        (let s1 = s\<lparr>state := st\<rparr> in
         if st = Connected then s1\<lparr>connected := True\<rparr>
         else if connected s1 then stop_error_heartbeat (s1\<lparr>connected := False\<rparr>)
         else s1)
      else s)"

definition error_heartbeat_timer_tick :: "error_client \<Rightarrow> error_client" where
  "error_heartbeat_timer_tick s = error_update_state Timeout (s\<lparr>socket_state := Down\<rparr>)"

definition error_subscribe :: "error_client \<Rightarrow> error_client" where
  "error_subscribe s =
     s\<lparr>socket_state := Trying,
       filters := filters s \<union> channels s,
       subscriptions := subscriptions s \<union> channels s\<rparr>"

definition error_unsubscribe :: "error_client \<Rightarrow> error_client" where
  "error_unsubscribe s =
     s\<lparr>socket_state := Down,
       filters := filters s - subscriptions s,
       subscriptions := {}\<rparr>"

text \<open>One round of the loop \<open>for note in self.rx.note\<close> on the dict at address \<open>a\<close>.\<close>

definition append_note :: "nat \<Rightarrow> error_client \<Rightarrow> string \<Rightarrow> error_client" where
  "append_note a s n =
     (let e = heap s ! a;
          s1 = s\<lparr>heap := (heap s)[a := e\<lparr>entry_notes := entry_notes e @ [n]\<rparr>]\<rparr>
      in s1\<lparr>error_list := error_list s1 @ [a]\<rparr>)"

definition process_error :: "string \<Rightarrow> container \<Rightarrow> error_client \<Rightarrow> error_client" where
  "process_error topic rx s =
     (if mtype rx = Some MT_EMC_NML_ERROR
         \<or> mtype rx = Some MT_EMC_NML_TEXT
         \<or> mtype rx = Some MT_EMC_NML_DISPLAY
         \<or> mtype rx = Some MT_EMC_OPERATOR_TEXT
         \<or> mtype rx = Some MT_EMC_OPERATOR_ERROR
         \<or> mtype rx = Some MT_EMC_OPERATOR_DISPLAY then
        (let a = length (heap s);
             s1 = s\<lparr>heap := heap s @ [\<lparr>entry_type = mtype rx, entry_notes = []\<rparr>]\<rparr>
         in refresh_error_heartbeat (foldl (append_note a) s1 (note_list rx)))
      else if mtype rx = Some MT_PING then
        (let s1 = (if socket_state s = Up then refresh_error_heartbeat s
                   else if state s = Timeout then
                     error_subscribe (error_unsubscribe (error_update_state Connecting s))
                   else error_update_state Connected (s\<lparr>socket_state := Up\<rparr>))
         in case pparams rx of
              Some p \<Rightarrow> start_error_heartbeat (keepalive_timer p * 2) s1
            | None \<Rightarrow> s1)
      else s)"

text \<open>
  \<open>get_messages\<close> returns \<open>list(self.error_list)\<close>, a new list of the same
  references; \<open>entries s refs\<close> reads the dicts behind them.
\<close>

definition get_messages :: "error_client \<Rightarrow> nat list \<times> error_client" where
  "get_messages s = (error_list s, s\<lparr>error_list := []\<rparr>)"

definition entries :: "error_client \<Rightarrow> nat list \<Rightarrow> error_entry list" where
  "entries s refs = map (\<lambda>a. heap s ! a) refs"

definition error_connect_sockets :: "error_client \<Rightarrow> error_client \<times> bool" where
  "error_connect_sockets s = (s\<lparr>sockets_connected := True\<rparr>, True)"

definition error_disconnect_sockets :: "error_client \<Rightarrow> error_client" where
  "error_disconnect_sockets s =
     (if sockets_connected s then s\<lparr>sockets_connected := False\<rparr> else s)"

definition error_start :: "error_client \<Rightarrow> error_client \<times> exn option" where
  "error_start s =
     (let s1 = error_update_state Connecting (s\<lparr>socket_state := Trying\<rparr>) in
      case error_connect_sockets s1 of
        (s2, ok) \<Rightarrow>
          if ok then
            (let s3 = s2\<lparr>shutdown_event := False, threads := threads s2 @ [Unstarted]\<rparr> in
             case start_threads (threads s3) of
               (ts, Some e) \<Rightarrow> (s3\<lparr>threads := ts\<rparr>, Some e)
             | (ts, None) \<Rightarrow> (error_subscribe (s3\<lparr>threads := ts\<rparr>), None))
          else (s2, None))"

definition error_cleanup :: "error_client \<Rightarrow> error_client" where
  "error_cleanup s =
     (let s1 = (if connected s then error_unsubscribe s else s)
      in (error_disconnect_sockets s1)\<lparr>subscriptions := {}\<rparr>)"

definition error_stop :: "error_client \<Rightarrow> error_client \<times> exn option" where
  "error_stop s =
     (let s1 = s\<lparr>is_ready := False, shutdown_event := True\<rparr> in
      case join_threads (threads s1) of
        (ts, Some e) \<Rightarrow> (s1\<lparr>threads := ts\<rparr>, Some e)
      | (ts, None) \<Rightarrow> (error_update_state Disconnected (error_cleanup (s1\<lparr>threads := []\<rparr>)), None))"

definition error_ready :: "error_client \<Rightarrow> error_client \<times> exn option" where
  "error_ready s =
     (if \<not> is_ready s then error_start (s\<lparr>is_ready := True\<rparr>) else (s, None))"

datatype error_event =
    ErrorStart | ErrorStop | ErrorReady
  | ErrorReceive string container
  | ErrorGetMessages
  | ErrorTimerExpired

definition error_step :: "error_client \<Rightarrow> error_event \<Rightarrow> error_client" where
  "error_step s ev =
     (case ev of
        ErrorStart \<Rightarrow> fst (error_start s)
      | ErrorStop \<Rightarrow> fst (error_stop s)
      | ErrorReady \<Rightarrow> fst (error_ready s)
      | ErrorReceive topic rx \<Rightarrow>
          if worker_running s then process_error topic rx s else s
      | ErrorGetMessages \<Rightarrow> snd (get_messages s)
      | ErrorTimerExpired \<Rightarrow>
          (case error_timer s of
             Some t \<Rightarrow>
               if pending t
               then error_heartbeat_timer_tick (s\<lparr>error_timer := Some (cancel t)\<rparr>)
               else s
           | None \<Rightarrow> s))"

definition error_run :: "error_event list \<Rightarrow> error_client" where
  "error_run evs = foldl error_step ApplicationError evs"

section \<open>Invariants and observations\<close>

text \<open>
  The channel payload that \<open>process_status\<close> looks for in a message on \<open>topic\<close>:
  none when the topic is not one of the five channels.
\<close>

definition payload :: "string \<Rightarrow> container \<Rightarrow> message option" where
  "payload topic rx =
     (if topic = ''motion'' then emc_status_motion rx
      else if topic = ''config'' then emc_status_config rx
      else if topic = ''io'' then emc_status_io rx
      else if topic = ''task'' then emc_status_task rx
      else if topic = ''interp'' then emc_status_interp rx
      else None)"

text \<open>The five channel mirrors: motion, config, io, task, interp.\<close>

definition mirrors :: "status \<Rightarrow> message \<times> message \<times> message \<times> message \<times> message" where
  "mirrors s = (mirror_motion s, mirror_config s, mirror_io s, mirror_task s, mirror_interp s)"

definition sync_consistent :: "status \<Rightarrow> bool" where
  "sync_consistent s =
     (channels s = status_channels
      \<and> synced s = (synced_channels s = status_channels)
      \<and> synced_channels s \<subseteq> status_channels)"

definition status_inv :: "status \<Rightarrow> bool" where
  "status_inv s =
     (connected s = (state s = Connected)
      \<and> (status_state s = Up) = connected s
      \<and> sync_consistent s
      \<and> (connected s \<or> synced_channels s = {}))"

text \<open>An event is the receipt of a full update on channel \<open>c\<close> that carries the payload
  of \<open>c\<close>.\<close>

definition full_update_on :: "string \<Rightarrow> status_event \<Rightarrow> bool" where
  "full_update_on c ev =
     (case ev of
        StatusReceive topic rx \<Rightarrow>
          topic = c \<and> mtype rx = Some MT_EMCSTAT_FULL_UPDATE \<and> payload c rx \<noteq> None
      | _ \<Rightarrow> False)"

definition is_receive :: "status_event \<Rightarrow> bool" where
  "is_receive ev = (case ev of StatusReceive topic rx \<Rightarrow> True | _ \<Rightarrow> False)"

definition command_inv :: "command \<Rightarrow> bool" where
  "command_inv s =
     (connected s = (state s = Connected) \<and> heartbeat_timer s = None
      \<and> state s \<noteq> Timeout)"

definition error_inv :: "error_client \<Rightarrow> bool" where
  "error_inv s = (connected s = (state s = Connected))"

text \<open>
  What a StatusClient and an ErrorClient have in common as connection state: the public
  state, the socket-level state, \<open>connected\<close>, whether the recorded subscriptions are
  the channel set, the keepalive period and the keepalive timer.
\<close>

type_synonym conn_view = "conn_state \<times> sock_state \<times> bool \<times> bool \<times> int \<times> timer option"

definition status_view :: "status \<Rightarrow> conn_view" where
  "status_view s =
     (state s, status_state s, connected s, subscriptions s = channels s,
      status_period s, status_timer s)"

definition error_view :: "error_client \<Rightarrow> conn_view" where
  "error_view s =
     (state s, socket_state s, connected s, subscriptions s = channels s,
      error_period s, error_timer s)"

text \<open>The messages and event lists of the concrete scenarios.\<close>

definition full_update_motion :: container where
  "full_update_motion =
     Container\<lparr>mtype := Some MT_EMCSTAT_FULL_UPDATE,
       emc_status_motion := Some [(''x'', PInt 1)],
       pparams := Some \<lparr>keepalive_timer = 1000\<rparr>\<rparr>"

definition five_full_updates :: "status_event list" where
  "five_full_updates =
     [StatusReceive ''motion''
        (Container\<lparr>mtype := Some MT_EMCSTAT_FULL_UPDATE, emc_status_motion := Some Clear\<rparr>),
      StatusReceive ''config''
        (Container\<lparr>mtype := Some MT_EMCSTAT_FULL_UPDATE, emc_status_config := Some Clear\<rparr>),
      StatusReceive ''io''
        (Container\<lparr>mtype := Some MT_EMCSTAT_FULL_UPDATE, emc_status_io := Some Clear\<rparr>),
      StatusReceive ''task''
        (Container\<lparr>mtype := Some MT_EMCSTAT_FULL_UPDATE, emc_status_task := Some Clear\<rparr>),
      StatusReceive ''interp''
        (Container\<lparr>mtype := Some MT_EMCSTAT_FULL_UPDATE, emc_status_interp := Some Clear\<rparr>)]"

definition ping_acknowledge :: container where
  "ping_acknowledge = Container\<lparr>mtype := Some MT_PING_ACKNOWLEDGE\<rparr>"

definition operator_text_ab :: container where
  "operator_text_ab = Container\<lparr>mtype := Some MT_EMC_OPERATOR_TEXT, note_list := [''a'', ''b'']\<rparr>"

definition nml_error_x :: container where
  "nml_error_x = Container\<lparr>mtype := Some MT_EMC_NML_ERROR, note_list := [''x'']\<rparr>"

definition ping_message :: container where
  "ping_message = Container\<lparr>mtype := Some MT_PING\<rparr>"

definition ping_keepalive :: container where
  "ping_keepalive =
     Container\<lparr>mtype := Some MT_PING, pparams := Some \<lparr>keepalive_timer = 1000\<rparr>\<rparr>"

section \<open>Properties of the command operations\<close>

lemmas command_op_defs =
  abort_def run_program_def pause_program_def step_program_def resume_program_def
  reset_program_def set_task_mode_def set_task_state_def open_program_def execute_mdi_def
  set_spindle_brake_def set_debug_level_def set_feed_override_def set_flood_enabled_def
  home_axis_def jog_def load_tool_table_def set_maximum_velocity_def set_mist_enabled_def
  override_limits_def set_adaptive_feed_enabled_def set_analog_output_def
  set_block_delete_enabled_def set_digital_output_def set_feed_hold_enabled_def
  set_feed_override_enabled_def set_axis_max_position_limit_def
  set_axis_min_position_limit_def set_optional_stop_enabled_def
  set_spindle_override_enabled_def set_spindle_def set_spindle_override_def
  set_teleop_enabled_def set_teleop_vector_def set_tool_offset_def set_trajectory_mode_def
  unhome_axis_def shutdown_def

lemma send_command_msg_simps [simp]:
  "tx (send_command_msg t s) = Container"
  "sent (send_command_msg t s) = sent s @ [(tx s)\<lparr>mtype := Some t\<rparr>]"
  "connected (send_command_msg t s) = connected s"
  "state (send_command_msg t s) = state s"
  "heartbeat_timer (send_command_msg t s) = heartbeat_timer s"
  "threads (send_command_msg t s) = threads s"
  "shutdown_event (send_command_msg t s) = shutdown_event s"
  by (simp_all add: send_command_msg_def Let_def)

lemma set_param_simps [simp]:
  "connected (set_param k v s) = connected s"
  "state (set_param k v s) = state s"
  "heartbeat_timer (set_param k v s) = heartbeat_timer s"
  "sent (set_param k v s) = sent s"
  "threads (set_param k v s) = threads s"
  "shutdown_event (set_param k v s) = shutdown_event s"
  by (simp_all add: set_param_def)

lemma set_interp_name_simps [simp]:
  "connected (set_interp_name v s) = connected s"
  "state (set_interp_name v s) = state s"
  "heartbeat_timer (set_interp_name v s) = heartbeat_timer s"
  "sent (set_interp_name v s) = sent s"
  "threads (set_interp_name v s) = threads s"
  "shutdown_event (set_interp_name v s) = shutdown_event s"
  by (simp_all add: set_interp_name_def)

lemma clear_tx_simps [simp]:
  "tx (clear_tx s) = Container"
  "connected (clear_tx s) = connected s"
  "state (clear_tx s) = state s"
  "heartbeat_timer (clear_tx s) = heartbeat_timer s"
  "sent (clear_tx s) = sent s"
  "threads (clear_tx s) = threads s"
  "shutdown_event (clear_tx s) = shutdown_event s"
  by (simp_all add: clear_tx_def)

lemma invoke_not_connected: "\<not> connected s \<Longrightarrow> invoke c s = s"
  by (cases c) (simp_all add: command_op_defs)

lemma invoke_connected [simp]: "connected (invoke c s) = connected s"
  by (cases c) (simp_all add: command_op_defs Let_def)

lemma invoke_state [simp]: "state (invoke c s) = state s"
  by (cases c) (simp_all add: command_op_defs Let_def)

lemma invoke_heartbeat_timer [simp]: "heartbeat_timer (invoke c s) = heartbeat_timer s"
  by (cases c) (simp_all add: command_op_defs Let_def)

lemma invoke_tx:
  assumes "tx s = Container" and "\<forall>l. c \<noteq> Set_debug_level l"
  shows "tx (invoke c s) = Container"
  using assms by (cases c) (simp_all add: command_op_defs Let_def)

lemma command_run_start:
  "command_run [CommandStart] =
     ApplicationCommand\<lparr>threads := [Started], sockets_connected := True, state := Connecting,
       command_state := Trying,
       sent := [Container\<lparr>mtype := Some MT_PING\<rparr>]\<rparr>"
  by (simp add: command_run_def command_step_def command_start_def command_update_state_def
      command_connect_sockets_def start_command_heartbeat_def send_command_msg_def
      ApplicationCommand_def Let_def)

text \<open>
  C7. Every public command operation of CommandClient that is called while
  \<open>connected\<close> is false returns with the object as it was: no message is handed to
  the socket and no attribute changes, the outbound container \<open>tx\<close> included.
\<close>

theorem C7_command_noop_when_not_connected:
  assumes "\<not> connected s"
  shows "invoke c s = s \<and> sent (invoke c s) = sent s \<and> tx (invoke c s) = tx s"
  using assms by (simp add: invoke_not_connected)

theorem C7_command_noop_when_not_connected_witness:
  "\<not> connected (command_run [CommandStart])
   \<and> invoke (Jog 2 2 10 5) (command_run [CommandStart]) = command_run [CommandStart]
   \<and> sent (invoke (Jog 2 2 10 5) (command_run [CommandStart]))
       = [Container\<lparr>mtype := Some MT_PING\<rparr>]"
proof -
  have nc: "\<not> connected (command_run [CommandStart])"
    by (simp add: command_run_start ApplicationCommand_def)
  have "sent (command_run [CommandStart]) = [Container\<lparr>mtype := Some MT_PING\<rparr>]"
    by (simp add: command_run_start)
  with nc C7_command_noop_when_not_connected [OF nc, of "Jog 2 2 10 5"]
  show ?thesis by simp
qed

lemma command_update_state_simps [simp]:
  "state (command_update_state st s) = st"
  "connected (command_update_state st s) = (if st = state s then connected s else st = Connected)"
  "heartbeat_timer (command_update_state st s) = heartbeat_timer s"
  "tx (command_update_state st s) = tx s"
  "sent (command_update_state st s) = sent s"
  "threads (command_update_state st s) = threads s"
  "shutdown_event (command_update_state st s) = shutdown_event s"
  by (simp_all add: command_update_state_def Let_def)

lemma command_inv_init: "command_inv ApplicationCommand"
  by (simp add: command_inv_def ApplicationCommand_def)

lemma command_inv_start: "command_inv s \<Longrightarrow> command_inv (fst (command_start s))"
  by (simp add: command_inv_def command_start_def command_connect_sockets_def
      start_command_heartbeat_def Let_def split: prod.splits option.splits)

lemma command_inv_stop: "command_inv s \<Longrightarrow> command_inv (fst (command_stop s))"
  by (simp add: command_inv_def command_stop_def command_cleanup_def
      command_disconnect_sockets_def stop_command_heartbeat_def Let_def
      split: prod.splits option.splits)

lemma command_inv_ready: "command_inv s \<Longrightarrow> command_inv (fst (command_ready s))"
proof (cases "is_ready s")
  case True
  assume "command_inv s"
  with True show ?thesis by (simp add: command_ready_def)
next
  case False
  assume "command_inv s"
  then have "command_inv (s\<lparr>is_ready := True\<rparr>)" by (simp add: command_inv_def)
  then have "command_inv (fst (command_start (s\<lparr>is_ready := True\<rparr>)))"
    by (rule command_inv_start)
  with False show ?thesis by (simp add: command_ready_def)
qed

lemma command_inv_invoke: "command_inv s \<Longrightarrow> command_inv (invoke c s)"
  by (simp add: command_inv_def)

lemma command_inv_process: "command_inv s \<Longrightarrow> command_inv (process_command rx s)"
  by (simp add: command_inv_def process_command_def update_error_def Let_def)

lemma command_inv_step: "command_inv s \<Longrightarrow> command_inv (command_step s ev)"
proof (cases ev)
  case CommandTimerExpired
  assume "command_inv s"
  with CommandTimerExpired show ?thesis by (simp add: command_step_def command_inv_def)
qed (simp_all add: command_step_def command_inv_start command_inv_stop command_inv_ready
      command_inv_invoke command_inv_process)

lemma command_run_snoc: "command_run (evs @ [ev]) = command_step (command_run evs) ev"
  by (simp add: command_run_def)

lemma command_inv_run: "command_inv (command_run evs)"
  by (induction evs rule: rev_induct)
     (simp_all add: command_run_snoc command_inv_step, simp add: command_run_def command_inv_init)

section \<open>Properties of ApplicationStatus\<close>

lemma status_channels_nonempty [simp]: "status_channels \<noteq> {}" "{} \<noteq> status_channels"
  by (simp_all add: status_channels_def)

lemma status_channels_mem [simp]:
  "''motion'' \<in> status_channels" "''config'' \<in> status_channels" "''io'' \<in> status_channels"
  "''task'' \<in> status_channels" "''interp'' \<in> status_channels"
  by (simp_all add: status_channels_def)

lemmas status_defs = status_update_state_def clear_sync_def stop_status_heartbeat_def
  clear_mirrors_def status_timer_tick_def status_subscribe_def status_unsubscribe_def
  status_connect_sockets_def status_disconnect_sockets_def status_start_def
  status_cleanup_def status_stop_def
  start_status_heartbeat_def refresh_status_heartbeat_def

lemmas recv_defs = recv_motion_def recv_config_def recv_io_def recv_task_def recv_interp_def
  update_sync_def update_motion_def update_config_def update_io_def update_task_def
  update_interp_def update_running_def

lemma recv_frame [simp]:
  "state (recv_motion t rx s) = state s" "connected (recv_motion t rx s) = connected s"
  "status_state (recv_motion t rx s) = status_state s" "channels (recv_motion t rx s) = channels s"
  "status_timer (recv_motion t rx s) = status_timer s"
  "threads (recv_motion t rx s) = threads s" "shutdown_event (recv_motion t rx s) = shutdown_event s"
  "state (recv_config t rx s) = state s" "connected (recv_config t rx s) = connected s"
  "status_state (recv_config t rx s) = status_state s" "channels (recv_config t rx s) = channels s"
  "status_timer (recv_config t rx s) = status_timer s"
  "threads (recv_config t rx s) = threads s" "shutdown_event (recv_config t rx s) = shutdown_event s"
  "state (recv_io t rx s) = state s" "connected (recv_io t rx s) = connected s"
  "status_state (recv_io t rx s) = status_state s" "channels (recv_io t rx s) = channels s"
  "status_timer (recv_io t rx s) = status_timer s"
  "threads (recv_io t rx s) = threads s" "shutdown_event (recv_io t rx s) = shutdown_event s"
  "state (recv_task t rx s) = state s" "connected (recv_task t rx s) = connected s"
  "status_state (recv_task t rx s) = status_state s" "channels (recv_task t rx s) = channels s"
  "status_timer (recv_task t rx s) = status_timer s"
  "threads (recv_task t rx s) = threads s" "shutdown_event (recv_task t rx s) = shutdown_event s"
  "state (recv_interp t rx s) = state s" "connected (recv_interp t rx s) = connected s"
  "status_state (recv_interp t rx s) = status_state s" "channels (recv_interp t rx s) = channels s"
  "status_timer (recv_interp t rx s) = status_timer s"
  "threads (recv_interp t rx s) = threads s" "shutdown_event (recv_interp t rx s) = shutdown_event s"
  by (simp_all add: recv_defs Let_def split: option.splits)


lemma recv_synced_channels:
  "synced_channels (recv_motion t rx s) =
     (if t = ''motion'' \<and> payload t rx \<noteq> None \<and> mtype rx = Some MT_EMCSTAT_FULL_UPDATE
      then insert t (synced_channels s) else synced_channels s)"
  "synced_channels (recv_config t rx s) =
     (if t = ''config'' \<and> payload t rx \<noteq> None \<and> mtype rx = Some MT_EMCSTAT_FULL_UPDATE
      then insert t (synced_channels s) else synced_channels s)"
  "synced_channels (recv_io t rx s) =
     (if t = ''io'' \<and> payload t rx \<noteq> None \<and> mtype rx = Some MT_EMCSTAT_FULL_UPDATE
      then insert t (synced_channels s) else synced_channels s)"
  "synced_channels (recv_task t rx s) =
     (if t = ''task'' \<and> payload t rx \<noteq> None \<and> mtype rx = Some MT_EMCSTAT_FULL_UPDATE
      then insert t (synced_channels s) else synced_channels s)"
  "synced_channels (recv_interp t rx s) =
     (if t = ''interp'' \<and> payload t rx \<noteq> None \<and> mtype rx = Some MT_EMCSTAT_FULL_UPDATE
      then insert t (synced_channels s) else synced_channels s)"
  by (auto simp add: recv_defs payload_def Let_def split: option.splits)




lemma recv_sync_consistent:
  assumes "sync_consistent s"
  shows "sync_consistent (recv_motion t rx s)" "sync_consistent (recv_config t rx s)"
    "sync_consistent (recv_io t rx s)" "sync_consistent (recv_task t rx s)"
    "sync_consistent (recv_interp t rx s)"
  using assms by (auto simp add: recv_defs sync_consistent_def Let_def split: option.splits)

lemma recv_mirrors:
  assumes "payload t rx = None"
  shows "recv_motion t rx s = s" "recv_config t rx s = s" "recv_io t rx s = s"
    "recv_task t rx s = s" "recv_interp t rx s = s"
proof -
  show "recv_motion t rx s = s" using assms
    by (cases "t = ''motion''") (simp_all add: recv_motion_def payload_def split: option.splits)
  show "recv_config t rx s = s" using assms
    by (cases "t = ''config''") (simp_all add: recv_config_def payload_def split: option.splits)
  show "recv_io t rx s = s" using assms
    by (cases "t = ''io''") (simp_all add: recv_io_def payload_def split: option.splits)
  show "recv_task t rx s = s" using assms
    by (cases "t = ''task''") (simp_all add: recv_task_def payload_def split: option.splits)
  show "recv_interp t rx s = s" using assms
    by (cases "t = ''interp''") (simp_all add: recv_interp_def payload_def split: option.splits)
qed

lemma recv_chain_synced_channels:
  "synced_channels (recv_interp t rx (recv_task t rx (recv_io t rx (recv_config t rx
      (recv_motion t rx s))))) =
     (if mtype rx = Some MT_EMCSTAT_FULL_UPDATE \<and> payload t rx \<noteq> None
      then insert t (synced_channels s) else synced_channels s)"
proof (cases "payload t rx")
  case None
  then show ?thesis by (simp add: recv_mirrors)
next
  case (Some d)
  then have "t = ''motion'' \<or> t = ''config'' \<or> t = ''io'' \<or> t = ''task'' \<or> t = ''interp''"
    unfolding payload_def by (metis option.distinct(1))
  then show ?thesis using Some
    by (elim disjE) (simp_all add: recv_synced_channels)
qed




lemma status_update_state_simps [simp]:
  "state (status_update_state st s) = st"
  "connected (status_update_state st s) = (if st = state s then connected s else st = Connected)"
  "status_state (status_update_state st s) = status_state s"
  "channels (status_update_state st s) = channels s"
  "subscriptions (status_update_state st s) = subscriptions s"
  "threads (status_update_state st s) = threads s"
  "shutdown_event (status_update_state st s) = shutdown_event s"
  "synced_channels (status_update_state st s) =
     (if st \<noteq> state s \<and> st \<noteq> Connected \<and> connected s then {} else synced_channels s)"
  "synced (status_update_state st s) =
     (if st \<noteq> state s \<and> st \<noteq> Connected \<and> connected s then False else synced s)"
  "status_timer (status_update_state st s) =
     (if st \<noteq> state s \<and> st \<noteq> Connected \<and> connected s then None else status_timer s)"
  "mirrors (status_update_state st s) =
     (if st \<noteq> state s \<and> st \<noteq> Connected \<and> connected s \<and> st \<noteq> Timeout
      then (Clear, Clear, Clear, Clear, Clear) else mirrors s)"
  by (simp_all add: status_update_state_def clear_sync_def stop_status_heartbeat_def
      clear_mirrors_def mirrors_def Let_def split: option.splits)

lemma status_heartbeat_simps [simp]:
  "state (start_status_heartbeat i s) = state s"
  "connected (start_status_heartbeat i s) = connected s"
  "status_state (start_status_heartbeat i s) = status_state s"
  "channels (start_status_heartbeat i s) = channels s"
  "threads (start_status_heartbeat i s) = threads s"
  "shutdown_event (start_status_heartbeat i s) = shutdown_event s"
  "synced_channels (start_status_heartbeat i s) = synced_channels s"
  "synced (start_status_heartbeat i s) = synced s"
  "mirrors (start_status_heartbeat i s) = mirrors s"
  "state (refresh_status_heartbeat s) = state s"
  "connected (refresh_status_heartbeat s) = connected s"
  "status_state (refresh_status_heartbeat s) = status_state s"
  "channels (refresh_status_heartbeat s) = channels s"
  "threads (refresh_status_heartbeat s) = threads s"
  "shutdown_event (refresh_status_heartbeat s) = shutdown_event s"
  "synced_channels (refresh_status_heartbeat s) = synced_channels s"
  "synced (refresh_status_heartbeat s) = synced s"
  "mirrors (refresh_status_heartbeat s) = mirrors s"
  by (simp_all add: start_status_heartbeat_def refresh_status_heartbeat_def mirrors_def Let_def
      split: option.splits)

lemma status_subscribe_simps [simp]:
  "state (status_subscribe s) = state s"
  "connected (status_subscribe s) = connected s"
  "status_state (status_subscribe s) = Trying"
  "channels (status_subscribe s) = channels s"
  "subscriptions (status_subscribe s) = subscriptions s \<union> channels s"
  "threads (status_subscribe s) = threads s"
  "shutdown_event (status_subscribe s) = shutdown_event s"
  "synced_channels (status_subscribe s) = synced_channels s"
  "synced (status_subscribe s) = synced s"
  "status_timer (status_subscribe s) = status_timer s"
  "mirrors (status_subscribe s) = mirrors s"
  by (simp_all add: status_subscribe_def mirrors_def)

lemma status_unsubscribe_simps [simp]:
  "state (status_unsubscribe s) = state s"
  "connected (status_unsubscribe s) = connected s"
  "status_state (status_unsubscribe s) = Down"
  "channels (status_unsubscribe s) = channels s"
  "subscriptions (status_unsubscribe s) = {}"
  "threads (status_unsubscribe s) = threads s"
  "shutdown_event (status_unsubscribe s) = shutdown_event s"
  "synced_channels (status_unsubscribe s) = synced_channels s"
  "synced (status_unsubscribe s) = synced s"
  "status_timer (status_unsubscribe s) = status_timer s"
  by (simp_all add: status_unsubscribe_def)

lemma process_status_frame [simp]:
  "threads (process_status t rx s) = threads s"
  "shutdown_event (process_status t rx s) = shutdown_event s"
  "channels (process_status t rx s) = channels s"
  by (simp_all add: process_status_def Let_def split: option.splits)

lemma process_status_state:
  "state (process_status t rx s) =
     (if mtype rx = Some MT_EMCSTAT_FULL_UPDATE then
        (if status_state s \<noteq> Up then Connected else state s)
      else if mtype rx = Some MT_PING \<and> status_state s \<noteq> Up then Connecting
      else state s)"
  by (simp add: process_status_def Let_def split: option.splits)

lemma process_status_status_state:
  "status_state (process_status t rx s) =
     (if mtype rx = Some MT_EMCSTAT_FULL_UPDATE then Up
      else if mtype rx = Some MT_PING \<and> status_state s \<noteq> Up then Trying
      else status_state s)"
  by (simp add: process_status_def Let_def split: option.splits)

lemma process_status_connected:
  "connected (process_status t rx s) =
     (if mtype rx = Some MT_EMCSTAT_FULL_UPDATE then
        (if status_state s \<noteq> Up then (if state s = Connected then connected s else True)
         else connected s)
      else if mtype rx = Some MT_PING \<and> status_state s \<noteq> Up then
        (if state s = Connecting then connected s else False)
      else connected s)"
  by (simp add: process_status_def Let_def split: option.splits)

lemma process_status_synced_channels:
  "synced_channels (process_status t rx s) =
     (if mtype rx = Some MT_EMCSTAT_FULL_UPDATE then
        (if payload t rx \<noteq> None then insert t (synced_channels s) else synced_channels s)
      else if mtype rx = Some MT_PING \<and> status_state s \<noteq> Up
              \<and> state s \<noteq> Connecting \<and> connected s then {}
      else synced_channels s)"
  by (simp add: process_status_def recv_chain_synced_channels Let_def split: option.splits)




lemma sync_consistent_cong:
  assumes "sync_consistent s" "synced s' = synced s" "synced_channels s' = synced_channels s"
    "channels s' = channels s"
  shows "sync_consistent s'"
  using assms by (simp add: sync_consistent_def)

lemma sync_consistent_update_state:
  "sync_consistent s \<Longrightarrow> sync_consistent (status_update_state st s)"
  by (simp add: sync_consistent_def)

lemma process_status_sync_consistent:
  assumes "sync_consistent s"
  shows "sync_consistent (process_status t rx s)"
proof -
  let ?r = "recv_interp t rx (recv_task t rx (recv_io t rx (recv_config t rx
      (recv_motion t rx s))))"
  have r: "sync_consistent ?r"
    using assms by (simp add: recv_sync_consistent)
  have u: "sync_consistent (status_update_state Connected (?r\<lparr>status_state := Up\<rparr>))"
    by (rule sync_consistent_update_state) (rule sync_consistent_cong [OF r], simp_all)
  have p: "sync_consistent (status_subscribe (status_unsubscribe
      (status_update_state Connecting s)))"
    by (rule sync_consistent_cong [OF sync_consistent_update_state [OF assms, of Connecting]]) simp_all
  show ?thesis
    unfolding process_status_def Let_def
    using r u p assms
    by (auto split: option.splits intro: sync_consistent_cong [OF r]
        sync_consistent_cong [OF u] sync_consistent_cong [OF assms])
qed

lemma process_status_inv:
  assumes "status_inv s"
  shows "status_inv (process_status t rx s)"
proof -
  have "sync_consistent (process_status t rx s)"
    using assms by (simp add: status_inv_def process_status_sync_consistent)
  then show ?thesis
    using assms
    by (auto simp add: status_inv_def process_status_state process_status_status_state
        process_status_connected process_status_synced_channels)
qed




lemma status_inv_init: "status_inv ApplicationStatus"
  by (simp add: status_inv_def sync_consistent_def ApplicationStatus_def)

lemma status_start_inv: "status_inv s \<Longrightarrow> status_inv (fst (status_start s))"
  by (auto simp add: status_inv_def sync_consistent_def status_start_def
      status_connect_sockets_def Let_def split: prod.splits option.splits)

lemma status_stop_inv: "status_inv s \<Longrightarrow> status_inv (fst (status_stop s))"
  by (auto simp add: status_inv_def sync_consistent_def status_stop_def status_cleanup_def
      status_disconnect_sockets_def Let_def split: prod.splits option.splits)

lemma status_ready_inv:
  assumes "status_inv s"
  shows "status_inv (fst (status_ready s))"
proof (cases "is_ready s")
  case True
  with assms show ?thesis by (simp add: status_ready_def)
next
  case False
  from assms have "status_inv (s\<lparr>is_ready := True\<rparr>)"
    by (auto simp add: status_inv_def sync_consistent_def)
  then have "status_inv (fst (status_start (s\<lparr>is_ready := True\<rparr>)))"
    by (rule status_start_inv)
  with False show ?thesis by (simp add: status_ready_def)
qed

lemma status_tick_inv:
  "status_inv s \<Longrightarrow> status_inv (status_timer_tick (s\<lparr>status_timer := x\<rparr>))"
  by (auto simp add: status_inv_def sync_consistent_def status_timer_tick_def)

lemma status_step_inv:
  assumes "status_inv s"
  shows "status_inv (status_step s ev)"
  using assms
  by (cases ev)
     (simp_all add: status_step_def status_start_inv status_stop_inv status_ready_inv
       process_status_inv status_tick_inv split: option.splits)

lemma status_run_snoc: "status_run (evs @ [ev]) = status_step (status_run evs) ev"
  by (simp add: status_run_def)

lemma status_run_inv: "status_inv (status_run evs)"
proof (induction evs rule: rev_induct)
  case Nil
  show ?case by (simp add: status_run_def status_inv_init)
next
  case (snoc ev evs)
  then show ?case by (simp add: status_run_snoc status_step_inv)
qed

section \<open>Properties of ApplicationError\<close>

lemma error_update_state_simps [simp]:
  "state (error_update_state st s) = st"
  "connected (error_update_state st s) = (if st = state s then connected s else st = Connected)"
  "socket_state (error_update_state st s) = socket_state s"
  "channels (error_update_state st s) = channels s"
  "subscriptions (error_update_state st s) = subscriptions s"
  "filters (error_update_state st s) = filters s"
  "threads (error_update_state st s) = threads s"
  "shutdown_event (error_update_state st s) = shutdown_event s"
  "error_list (error_update_state st s) = error_list s"
  "heap (error_update_state st s) = heap s"
  "error_period (error_update_state st s) = error_period s"
  "error_timer (error_update_state st s) =
     (if st \<noteq> state s \<and> st \<noteq> Connected \<and> connected s then None else error_timer s)"
  by (simp_all add: error_update_state_def stop_error_heartbeat_def Let_def split: option.splits)

lemma error_heartbeat_simps [simp]:
  "state (start_error_heartbeat i s) = state s"
  "connected (start_error_heartbeat i s) = connected s"
  "socket_state (start_error_heartbeat i s) = socket_state s"
  "subscriptions (start_error_heartbeat i s) = subscriptions s"
  "filters (start_error_heartbeat i s) = filters s"
  "channels (start_error_heartbeat i s) = channels s"
  "error_period (start_error_heartbeat i s) = i"
  "error_timer (start_error_heartbeat i s) =
     (if 0 < i then Some (Timer i True) else map_option cancel (error_timer s))"
  "state (refresh_error_heartbeat s) = state s"
  "connected (refresh_error_heartbeat s) = connected s"
  "socket_state (refresh_error_heartbeat s) = socket_state s"
  "subscriptions (refresh_error_heartbeat s) = subscriptions s"
  "filters (refresh_error_heartbeat s) = filters s"
  "channels (refresh_error_heartbeat s) = channels s"
  "error_period (refresh_error_heartbeat s) = error_period s"
  "error_timer (refresh_error_heartbeat s) =
     map_option (\<lambda>t. Timer (error_period s) True) (error_timer s)"
  by (simp_all add: start_error_heartbeat_def refresh_error_heartbeat_def Let_def
      split: option.splits)

lemma error_subscribe_simps [simp]:
  "state (error_subscribe s) = state s"
  "connected (error_subscribe s) = connected s"
  "socket_state (error_subscribe s) = Trying"
  "channels (error_subscribe s) = channels s"
  "subscriptions (error_subscribe s) = subscriptions s \<union> channels s"
  "filters (error_subscribe s) = filters s \<union> channels s"
  "error_period (error_subscribe s) = error_period s"
  "error_timer (error_subscribe s) = error_timer s"
  by (simp_all add: error_subscribe_def)

lemma error_unsubscribe_simps [simp]:
  "state (error_unsubscribe s) = state s"
  "connected (error_unsubscribe s) = connected s"
  "socket_state (error_unsubscribe s) = Down"
  "channels (error_unsubscribe s) = channels s"
  "subscriptions (error_unsubscribe s) = {}"
  "filters (error_unsubscribe s) = filters s - subscriptions s"
  "error_period (error_unsubscribe s) = error_period s"
  "error_timer (error_unsubscribe s) = error_timer s"
  by (simp_all add: error_unsubscribe_def)

lemma append_note_frame [simp]:
  "state (append_note a s n) = state s" "connected (append_note a s n) = connected s"
  by (simp_all add: append_note_def Let_def)

lemma foldl_append_note_frame [simp]:
  "state (foldl (append_note a) s ns) = state s"
  "connected (foldl (append_note a) s ns) = connected s"
  by (induction ns arbitrary: s) simp_all

lemma process_error_inv: "error_inv s \<Longrightarrow> error_inv (process_error t rx s)"
  by (simp add: error_inv_def process_error_def Let_def split: option.splits)

lemma error_inv_init: "error_inv ApplicationError"
  by (simp add: error_inv_def ApplicationError_def)

lemma error_start_inv: "error_inv s \<Longrightarrow> error_inv (fst (error_start s))"
  by (simp add: error_inv_def error_start_def error_connect_sockets_def Let_def
      split: prod.splits option.splits)

lemma error_stop_inv: "error_inv s \<Longrightarrow> error_inv (fst (error_stop s))"
  by (simp add: error_inv_def error_stop_def error_cleanup_def error_disconnect_sockets_def
      Let_def split: prod.splits option.splits)

lemma error_ready_inv:
  assumes "error_inv s"
  shows "error_inv (fst (error_ready s))"
proof (cases "is_ready s")
  case True
  with assms show ?thesis by (simp add: error_ready_def)
next
  case False
  from assms have "error_inv (s\<lparr>is_ready := True\<rparr>)"
    by (simp add: error_inv_def)
  then have "error_inv (fst (error_start (s\<lparr>is_ready := True\<rparr>)))"
    by (rule error_start_inv)
  with False show ?thesis by (simp add: error_ready_def)
qed

lemma error_step_inv:
  assumes "error_inv s"
  shows "error_inv (error_step s ev)"
proof (cases ev)
  case ErrorTimerExpired
  with assms show ?thesis
    by (simp add: error_step_def error_inv_def error_heartbeat_timer_tick_def
        split: option.splits)
next
  case ErrorGetMessages
  with assms show ?thesis by (simp add: error_step_def error_inv_def get_messages_def)
qed (use assms in \<open>simp_all add: error_step_def error_start_inv error_stop_inv error_ready_inv
      process_error_inv\<close>)

lemma error_run_snoc: "error_run (evs @ [ev]) = error_step (error_run evs) ev"
  by (simp add: error_run_def)

lemma error_run_inv: "error_inv (error_run evs)"
proof (induction evs rule: rev_induct)
  case Nil
  show ?case by (simp add: error_run_def error_inv_init)
next
  case (snoc ev evs)
  then show ?case by (simp add: error_run_snoc error_step_inv)
qed

section \<open>The status replica\<close>

subsection \<open>Full updates without payload\<close>

lemma mirrors_frame [simp]:
  "mirrors (s\<lparr>status_state := x\<rparr>) = mirrors s"
  "mirrors (s\<lparr>status_timer := y\<rparr>) = mirrors s"
  "mirrors (s\<lparr>threads := z\<rparr>) = mirrors s"
  "mirrors (s\<lparr>is_ready := b\<rparr>) = mirrors s"
  "mirrors (s\<lparr>shutdown_event := b\<rparr>) = mirrors s"
  "mirrors (s\<lparr>sockets_connected := b\<rparr>) = mirrors s"
  "mirrors (s\<lparr>subscriptions := w\<rparr>) = mirrors s"
  by (simp_all add: mirrors_def)

lemma process_status_full_no_payload:
  assumes "mtype rx = Some MT_EMCSTAT_FULL_UPDATE" and "payload topic rx = None"
  shows "mirrors (process_status topic rx s) = mirrors s"
    and "synced_channels (process_status topic rx s) = synced_channels s"
    and "synced (process_status topic rx s) = synced s"
  using assms
  by (simp_all add: process_status_def recv_mirrors Let_def split: option.splits)

lemma status_run_full_no_payload:
  "status_run [StatusStart, StatusReceive t (Container\<lparr>mtype := Some MT_EMCSTAT_FULL_UPDATE\<rparr>)]
     = ApplicationStatus\<lparr>threads := [Started], sockets_connected := True, state := Connected,
         connected := True, status_state := Up, subscriptions := status_channels,
         filters := status_channels\<rparr>"
  by (simp add: status_run_def status_step_def status_start_def status_update_state_def
      status_connect_sockets_def status_subscribe_def worker_running_def process_status_def
      recv_mirrors payload_def Container_def ApplicationStatus_def Let_def)

text \<open>
  C10. A full update received by the StatusClient while the socket-level state is not
  \<open>Up\<close> sets it to \<open>Up\<close> and the public state to \<open>Connected\<close>, whatever
  the topic and the payload. When the message carries no payload for its topic (the topic
  is not one of the five channels, or the field of that channel is absent), no mirror is
  merged and the sync set and \<open>synced\<close> stay as they were; so after \<open>start\<close> one
  such message leads to \<open>Connected\<close> with the five mirrors cleared and \<open>synced\<close>
  false.
\<close>

theorem C10_full_update_connects_without_payload:
  assumes "mtype rx = Some MT_EMCSTAT_FULL_UPDATE" and "status_state s \<noteq> Up"
  shows "status_state (process_status topic rx s) = Up
     \<and> state (process_status topic rx s) = Connected
     \<and> (payload topic rx = None \<longrightarrow>
          mirrors (process_status topic rx s) = mirrors s
          \<and> synced_channels (process_status topic rx s) = synced_channels s
          \<and> synced (process_status topic rx s) = synced s)
     \<and> state (status_run [StatusStart,
            StatusReceive ''motion'' (Container\<lparr>mtype := Some MT_EMCSTAT_FULL_UPDATE\<rparr>)])
          = Connected
     \<and> mirrors (status_run [StatusStart,
            StatusReceive ''motion'' (Container\<lparr>mtype := Some MT_EMCSTAT_FULL_UPDATE\<rparr>)])
          = (Clear, Clear, Clear, Clear, Clear)
     \<and> \<not> synced (status_run [StatusStart,
            StatusReceive ''motion'' (Container\<lparr>mtype := Some MT_EMCSTAT_FULL_UPDATE\<rparr>)])"
  using assms
  by (simp add: process_status_state process_status_status_state
      process_status_full_no_payload status_run_full_no_payload)
     (simp add: ApplicationStatus_def mirrors_def)

lemma status_run_start:
  "status_run [StatusStart]
     = ApplicationStatus\<lparr>threads := [Started], sockets_connected := True, state := Connecting,
         status_state := Trying, subscriptions := status_channels,
         filters := status_channels\<rparr>"
  by (simp add: status_run_def status_step_def status_start_def status_update_state_def
      status_connect_sockets_def status_subscribe_def ApplicationStatus_def Let_def)

theorem C10_full_update_connects_without_payload_witness:
  "mtype (Container\<lparr>mtype := Some MT_EMCSTAT_FULL_UPDATE\<rparr>) = Some MT_EMCSTAT_FULL_UPDATE
   \<and> status_state (status_run [StatusStart]) \<noteq> Up
   \<and> payload ''motion'' (Container\<lparr>mtype := Some MT_EMCSTAT_FULL_UPDATE\<rparr>) = None
   \<and> state (process_status ''motion'' (Container\<lparr>mtype := Some MT_EMCSTAT_FULL_UPDATE\<rparr>)
         (status_run [StatusStart])) = Connected
   \<and> mirrors (process_status ''motion'' (Container\<lparr>mtype := Some MT_EMCSTAT_FULL_UPDATE\<rparr>)
         (status_run [StatusStart])) = (Clear, Clear, Clear, Clear, Clear)
   \<and> \<not> synced (process_status ''motion'' (Container\<lparr>mtype := Some MT_EMCSTAT_FULL_UPDATE\<rparr>)
         (status_run [StatusStart]))"
proof -
  let ?rx = "Container\<lparr>mtype := Some MT_EMCSTAT_FULL_UPDATE\<rparr>"
  have h1: "mtype ?rx = Some MT_EMCSTAT_FULL_UPDATE" by simp
  have h2: "status_state (status_run [StatusStart]) \<noteq> Up"
    by (simp add: status_run_start)
  have h3: "payload ''motion'' ?rx = None"
    by (simp add: payload_def Container_def)
  have h4: "mirrors (status_run [StatusStart]) = (Clear, Clear, Clear, Clear, Clear)"
    "\<not> synced (status_run [StatusStart])"
    by (simp_all add: status_run_start ApplicationStatus_def mirrors_def)
  from C10_full_update_connects_without_payload [OF h1 h2, of "''motion''"] h1 h2 h3 h4
  show ?thesis by simp
qed

subsection \<open>Leaving the state Connected\<close>

lemma status_start_leaves_connected:
  assumes "connected s" and "state s = Connected"
  shows "status_timer (fst (status_start s)) = None"
    "status_period (fst (status_start s)) = 0"
    "synced_channels (fst (status_start s)) = {}"
    "\<not> synced (fst (status_start s))"
    "state (fst (status_start s)) = Connecting"
    "mirrors (fst (status_start s)) = (Clear, Clear, Clear, Clear, Clear)"
  using assms
  by (simp_all add: status_start_def status_update_state_def clear_sync_def
      stop_status_heartbeat_def clear_mirrors_def status_connect_sockets_def
      status_subscribe_def mirrors_def Let_def split: prod.splits option.splits)

lemma status_stop_leaves_connected:
  assumes "connected s" and "state s = Connected"
    and "state (fst (status_stop s)) \<noteq> Connected"
  shows "status_timer (fst (status_stop s)) = None"
    "status_period (fst (status_stop s)) = 0"
    "synced_channels (fst (status_stop s)) = {}"
    "\<not> synced (fst (status_stop s))"
    "state (fst (status_stop s)) = Disconnected"
    "mirrors (fst (status_stop s)) = (Clear, Clear, Clear, Clear, Clear)"
  using assms
  by (simp_all add: status_stop_def status_cleanup_def status_unsubscribe_def
      status_disconnect_sockets_def status_update_state_def clear_sync_def
      stop_status_heartbeat_def clear_mirrors_def mirrors_def Let_def
      split: prod.splits option.splits)

lemma status_tick_leaves_connected:
  assumes "connected s" and "state s = Connected"
  shows "status_timer (status_timer_tick (s\<lparr>status_timer := x\<rparr>)) = None"
    "status_period (status_timer_tick (s\<lparr>status_timer := x\<rparr>)) = 0"
    "synced_channels (status_timer_tick (s\<lparr>status_timer := x\<rparr>)) = {}"
    "\<not> synced (status_timer_tick (s\<lparr>status_timer := x\<rparr>))"
    "state (status_timer_tick (s\<lparr>status_timer := x\<rparr>)) = Timeout"
    "mirrors (status_timer_tick (s\<lparr>status_timer := x\<rparr>)) = mirrors s"
  using assms
  by (simp_all add: status_timer_tick_def status_update_state_def clear_sync_def
      stop_status_heartbeat_def mirrors_def Let_def split: option.splits)

lemma status_ping_leaves_connected:
  assumes "connected s" and "state s = Connected"
    and "state (process_status t rx s) \<noteq> Connected"
  shows "status_timer (process_status t rx s) = None"
    "status_period (process_status t rx s) = 0"
    "synced_channels (process_status t rx s) = {}"
    "\<not> synced (process_status t rx s)"
    "state (process_status t rx s) = Connecting"
    "mirrors (process_status t rx s) = (Clear, Clear, Clear, Clear, Clear)"
proof -
  from assms have p: "mtype rx = Some MT_PING" "status_state s \<noteq> Up"
    by (auto simp add: process_status_state split: if_splits)
  then have e: "process_status t rx s
      = status_subscribe (status_unsubscribe (status_update_state Connecting s))"
    by (simp add: process_status_def)
  show "status_timer (process_status t rx s) = None"
    "status_period (process_status t rx s) = 0"
    "synced_channels (process_status t rx s) = {}"
    "\<not> synced (process_status t rx s)"
    "state (process_status t rx s) = Connecting"
    "mirrors (process_status t rx s) = (Clear, Clear, Clear, Clear, Clear)"
    unfolding e using assms(1,2)
    by (simp_all add: status_subscribe_def status_unsubscribe_def status_update_state_def
        clear_sync_def stop_status_heartbeat_def clear_mirrors_def mirrors_def Let_def
        split: option.splits)
qed

lemma status_run_connected:
  "status_run [StatusStart, StatusReceive ''motion'' full_update_motion]
     = ApplicationStatus\<lparr>threads := [Started], sockets_connected := True, state := Connected,
         connected := True, status_state := Up, subscriptions := status_channels,
         filters := status_channels, mirror_motion := [(''x'', PInt 1)],
         synced_channels := {''motion''}, status_period := 2000,
         status_timer := Some (Timer 2000 True)\<rparr>"
  unfolding status_run_def
  apply (simp add: status_step_def status_start_def status_update_state_def
      status_connect_sockets_def status_subscribe_def ApplicationStatus_def Let_def)
  apply (simp add: worker_running_def process_status_def full_update_motion_def Container_def
      recv_defs status_update_state_def start_status_heartbeat_def MergeFrom_def Clear_def
      status_channels_def Let_def)
  done

lemma status_run_timeout:
  "status_run [StatusStart, StatusReceive ''motion'' full_update_motion, StatusTimerExpired]
     = ApplicationStatus\<lparr>threads := [Started], sockets_connected := True, state := Timeout,
         connected := False, status_state := Down, subscriptions := status_channels,
         filters := status_channels, mirror_motion := [(''x'', PInt 1)]\<rparr>"
proof -
  have "status_run [StatusStart, StatusReceive ''motion'' full_update_motion, StatusTimerExpired]
    = status_step (status_run [StatusStart, StatusReceive ''motion'' full_update_motion])
        StatusTimerExpired"
    by (simp add: status_run_def)
  then show ?thesis
    by (simp add: status_run_connected status_step_def status_timer_tick_def
        status_update_state_def clear_sync_def stop_status_heartbeat_def cancel_def
        ApplicationStatus_def Let_def)
qed

lemma status_run_timeout_stop:
  "status_run [StatusStart, StatusReceive ''motion'' full_update_motion, StatusTimerExpired,
      StatusStop]
     = ApplicationStatus\<lparr>shutdown_event := True, filters := status_channels,
         mirror_motion := [(''x'', PInt 1)]\<rparr>"
proof -
  have "status_run [StatusStart, StatusReceive ''motion'' full_update_motion, StatusTimerExpired,
      StatusStop]
    = status_step (status_run [StatusStart, StatusReceive ''motion'' full_update_motion,
        StatusTimerExpired]) StatusStop"
    by (simp add: status_run_def)
  then show ?thesis
    by (simp add: status_run_timeout status_step_def status_stop_def status_cleanup_def
        status_disconnect_sockets_def status_update_state_def
        ApplicationStatus_def Let_def)
qed

text \<open>
  C4 as stated fails: after a full update on \<open>motion\<close> and the expiry of the keepalive
  timer the state is \<open>Timeout\<close>; \<open>stop\<close> then leads to \<open>Disconnected\<close> and the
  motion mirror still holds the field it received.
\<close>

theorem C4_stop_in_timeout_keeps_mirrors:
  "state (status_run [StatusStart, StatusReceive ''motion'' full_update_motion,
      StatusTimerExpired]) = Timeout
   \<and> state (status_run [StatusStart, StatusReceive ''motion'' full_update_motion,
      StatusTimerExpired, StatusStop]) = Disconnected
   \<and> mirror_motion (status_run [StatusStart, StatusReceive ''motion'' full_update_motion,
      StatusTimerExpired, StatusStop]) = [(''x'', PInt 1)]
   \<and> mirrors (status_run [StatusStart, StatusReceive ''motion'' full_update_motion,
      StatusTimerExpired, StatusStop]) \<noteq> (Clear, Clear, Clear, Clear, Clear)"
  by (simp add: status_run_timeout status_run_timeout_stop ApplicationStatus_def mirrors_def
      Clear_def)

lemma status_stop_in_timeout:
  assumes "\<not> connected s"
  shows "mirrors (fst (status_stop s)) = mirrors s"
    and "snd (join_threads (threads s)) = None \<Longrightarrow> state (fst (status_stop s)) = Disconnected"
  using assms
  by (auto simp add: status_stop_def status_cleanup_def status_disconnect_sockets_def
      Let_def split: prod.splits option.splits)

text \<open>
  C4, as amended. Whenever a step takes the public state of a StatusClient from
  \<open>Connected\<close> to another state, the keepalive timer is removed, the period is 0, the
  sync set is empty and \<open>synced\<close> is false; if the new state is \<open>Timeout\<close> the five
  mirrors are unchanged, otherwise all five are cleared. \<open>stop\<close> in the state
  \<open>Timeout\<close> leaves the five mirrors as they are, and leads to \<open>Disconnected\<close> when
  joining the workers does not raise.
\<close>

theorem C4_leaving_connected:
  assumes "connected s = (state s = Connected)"
  shows "(state s = Connected \<and> state (status_step s ev) \<noteq> Connected \<longrightarrow>
            status_timer (status_step s ev) = None
          \<and> status_period (status_step s ev) = 0
          \<and> synced_channels (status_step s ev) = {}
          \<and> \<not> synced (status_step s ev)
          \<and> (state (status_step s ev) = Timeout \<longrightarrow>
               mirrors (status_step s ev) = mirrors s)
          \<and> (state (status_step s ev) \<noteq> Timeout \<longrightarrow>
               mirrors (status_step s ev) = (Clear, Clear, Clear, Clear, Clear)))
     \<and> (state s = Timeout \<longrightarrow>
            mirrors (status_step s StatusStop) = mirrors s
          \<and> (snd (join_threads (threads s)) = None \<longrightarrow>
               state (status_step s StatusStop) = Disconnected))"
proof (intro conjI impI; (elim conjE)?)
  assume c: "state s = Connected" and n: "state (status_step s ev) \<noteq> Connected"
  from assms c have k: "connected s" by simp
  have "status_timer (status_step s ev) = None
      \<and> status_period (status_step s ev) = 0
      \<and> synced_channels (status_step s ev) = {}
      \<and> \<not> synced (status_step s ev)
      \<and> (state (status_step s ev) = Timeout \<longrightarrow> mirrors (status_step s ev) = mirrors s)
      \<and> (state (status_step s ev) \<noteq> Timeout \<longrightarrow>
           mirrors (status_step s ev) = (Clear, Clear, Clear, Clear, Clear))"
  proof (cases ev)
    case StatusStart
    with status_start_leaves_connected [OF k c] show ?thesis
      by (simp add: status_step_def)
  next
    case StatusStop
    with n have "state (fst (status_stop s)) \<noteq> Connected" by (simp add: status_step_def)
    from status_stop_leaves_connected [OF k c this] StatusStop show ?thesis
      by (simp add: status_step_def)
  next
    case StatusReady
    show ?thesis
    proof (cases "is_ready s")
      case True
      with StatusReady n c show ?thesis by (simp add: status_step_def status_ready_def)
    next
      case False
      have "connected (s\<lparr>is_ready := True\<rparr>)" "state (s\<lparr>is_ready := True\<rparr>) = Connected"
        using k c by simp_all
      from status_start_leaves_connected [OF this] False StatusReady show ?thesis
        by (simp add: status_step_def status_ready_def)
    qed
  next
    case (StatusReceive t rx)
    show ?thesis
    proof (cases "worker_running s")
      case True
      with StatusReceive n have "state (process_status t rx s) \<noteq> Connected"
        by (simp add: status_step_def)
      from status_ping_leaves_connected [OF k c this] True StatusReceive show ?thesis
        by (simp add: status_step_def)
    next
      case False
      with StatusReceive n c show ?thesis by (simp add: status_step_def)
    qed
  next
    case StatusTimerExpired
    show ?thesis
    proof (cases "status_timer s")
      case None
      with StatusTimerExpired n c show ?thesis by (simp add: status_step_def)
    next
      case (Some tm)
      show ?thesis
      proof (cases "pending tm")
        case True
        from status_tick_leaves_connected [OF k c, of "Some (cancel tm)"] True Some
          StatusTimerExpired
        show ?thesis by (simp add: status_step_def)
      next
        case False
        with Some StatusTimerExpired n c show ?thesis by (simp add: status_step_def)
      qed
    qed
  qed
  then show "status_timer (status_step s ev) = None"
    "status_period (status_step s ev) = 0"
    "synced_channels (status_step s ev) = {}"
    "\<not> synced (status_step s ev)"
    "state (status_step s ev) = Timeout \<Longrightarrow> mirrors (status_step s ev) = mirrors s"
    "state (status_step s ev) \<noteq> Timeout \<Longrightarrow>
       mirrors (status_step s ev) = (Clear, Clear, Clear, Clear, Clear)"
    by simp_all
next
  assume t: "state s = Timeout"
  with assms have k: "\<not> connected s" by simp
  from status_stop_in_timeout(1) [OF k]
  show "mirrors (status_step s StatusStop) = mirrors s"
    by (simp add: status_step_def)
  assume "snd (join_threads (threads s)) = None"
  from status_stop_in_timeout(2) [OF k this]
  show "state (status_step s StatusStop) = Disconnected"
    by (simp add: status_step_def)
qed

theorem C4_leaving_connected_witness:
  "connected (status_run [StatusStart, StatusReceive ''motion'' full_update_motion])
     = (state (status_run [StatusStart, StatusReceive ''motion'' full_update_motion]) = Connected)
   \<and> state (status_run [StatusStart, StatusReceive ''motion'' full_update_motion]) = Connected
   \<and> state (status_step (status_run [StatusStart, StatusReceive ''motion'' full_update_motion])
        StatusTimerExpired) = Timeout
   \<and> status_timer (status_step
        (status_run [StatusStart, StatusReceive ''motion'' full_update_motion])
        StatusTimerExpired) = None
   \<and> synced_channels (status_step
        (status_run [StatusStart, StatusReceive ''motion'' full_update_motion])
        StatusTimerExpired) = {}
   \<and> mirrors (status_step (status_run [StatusStart, StatusReceive ''motion'' full_update_motion])
        StatusTimerExpired) = ([(''x'', PInt 1)], Clear, Clear, Clear, Clear)
   \<and> state (status_step (status_run [StatusStart, StatusReceive ''motion'' full_update_motion])
        StatusStop) = Disconnected
   \<and> mirrors (status_step (status_run [StatusStart, StatusReceive ''motion'' full_update_motion])
        StatusStop) = (Clear, Clear, Clear, Clear, Clear)
   \<and> state (status_run [StatusStart, StatusReceive ''motion'' full_update_motion,
        StatusTimerExpired]) = Timeout
   \<and> mirrors (status_step (status_run [StatusStart, StatusReceive ''motion'' full_update_motion,
        StatusTimerExpired]) StatusStop) = ([(''x'', PInt 1)], Clear, Clear, Clear, Clear)"
proof -
  let ?s1 = "status_run [StatusStart, StatusReceive ''motion'' full_update_motion]"
  let ?s2 = "status_run [StatusStart, StatusReceive ''motion'' full_update_motion,
        StatusTimerExpired]"
  have h0: "connected ?s1 = (state ?s1 = Connected)"
    by (simp add: status_run_connected ApplicationStatus_def)
  have h1: "state ?s1 = Connected"
    by (simp add: status_run_connected)
  have e: "status_step ?s1 StatusTimerExpired = ?s2"
    by (simp add: status_run_def)
  have h2: "state (status_step ?s1 StatusTimerExpired) = Timeout"
    unfolding e by (simp add: status_run_timeout)
  have h3: "state (status_step ?s1 StatusStop) = Disconnected"
    by (simp add: status_run_connected status_step_def status_stop_def ApplicationStatus_def)
  have m1: "mirrors ?s1 = ([(''x'', PInt 1)], Clear, Clear, Clear, Clear)"
    by (simp add: status_run_connected mirrors_def ApplicationStatus_def)
  have h4: "connected ?s2 = (state ?s2 = Connected)"
    by (simp add: status_run_timeout ApplicationStatus_def)
  have h5: "state ?s2 = Timeout"
    by (simp add: status_run_timeout)
  have m2: "mirrors ?s2 = ([(''x'', PInt 1)], Clear, Clear, Clear, Clear)"
    by (simp add: status_run_timeout mirrors_def ApplicationStatus_def)
  from C4_leaving_connected [OF h0, of StatusTimerExpired]
    C4_leaving_connected [OF h0, of StatusStop]
    C4_leaving_connected [OF h4, of StatusStop]
    h0 h1 h2 h3 h5 m1 m2
  show ?thesis by simp
qed

subsection \<open>The sync set\<close>

lemma process_status_worker_running [simp]:
  "worker_running (process_status t rx s) = worker_running s"
  by (simp add: worker_running_def)

lemma receive_only_run:
  assumes "status_inv s" and "worker_running s" and "\<forall>ev\<in>set msgs. is_receive ev"
  shows "status_inv (foldl status_step s msgs)
     \<and> synced_channels (foldl status_step s msgs)
         = synced_channels s \<union> {c. \<exists>ev\<in>set msgs. full_update_on c ev}
     \<and> (state s = Connected \<or> (\<exists>c. \<exists>ev\<in>set msgs. full_update_on c ev)
          \<longrightarrow> state (foldl status_step s msgs) = Connected)"
  using assms
proof (induction msgs arbitrary: s)
  case Nil
  then show ?case by simp
next
  case (Cons ev msgs)
  from Cons.prems(3) obtain t rx where ev: "ev = StatusReceive t rx"
    by (cases ev) (simp_all add: is_receive_def)
  let ?s1 = "process_status t rx s"
  have st: "status_step s ev = ?s1"
    using ev Cons.prems(2) by (simp add: status_step_def)
  have i1: "status_inv ?s1" using Cons.prems(1) by (rule process_status_inv)
  have w1: "worker_running ?s1" using Cons.prems(2) by simp
  have r1: "\<forall>ev\<in>set msgs. is_receive ev" using Cons.prems(3) by simp
  note IH = Cons.IH [OF i1 w1 r1]
  have up: "status_state s \<noteq> Up \<Longrightarrow> \<not> connected s"
    using Cons.prems(1) by (auto simp add: status_inv_def)
  have sc: "synced_channels ?s1 = synced_channels s \<union> {c. full_update_on c ev}"
    using up by (auto simp add: process_status_synced_channels full_update_on_def ev)
  have cs: "state s = Connected \<or> (\<exists>c. full_update_on c ev) \<Longrightarrow> state ?s1 = Connected"
    using Cons.prems(1)
    by (auto simp add: process_status_state full_update_on_def ev status_inv_def)
  show ?case
    using IH sc cs by (simp add: st) blast
qed

lemma start_threads_None:
  "start_threads ts = (ts', None) \<Longrightarrow> ts' = replicate (length ts) Started"
  by (induction ts arbitrary: ts') (auto split: if_splits prod.splits)

lemma status_start_worker_running:
  assumes "snd (status_start s) = None"
  shows "worker_running (fst (status_start s))"
proof -
  let ?s1 = "status_update_state Connecting (s\<lparr>status_state := Trying\<rparr>)"
  obtain ts r where st: "start_threads (threads s @ [Unstarted]) = (ts, r)"
    by (cases "start_threads (threads s @ [Unstarted])")
  with assms have r: "r = None"
    by (auto simp add: status_start_def status_connect_sockets_def Let_def split: option.splits)
  with st have ts: "ts = replicate (length (threads s @ [Unstarted])) Started"
    using start_threads_None by blast
  from st r have "threads (fst (status_start s)) = ts"
    "\<not> shutdown_event (fst (status_start s))"
    by (simp_all add: status_start_def status_connect_sockets_def Let_def)
  with ts show ?thesis by (simp add: worker_running_def)
qed

lemma status_start_state [simp]: "state (fst (status_start s)) = Connecting"
  by (simp add: status_start_def status_connect_sockets_def Let_def
      split: prod.splits option.splits)

lemma payload_outside: "c \<notin> status_channels \<Longrightarrow> payload c rx = None"
  by (simp add: payload_def status_channels_def)

lemma payload_channel: "payload c rx \<noteq> None \<Longrightarrow> c \<in> status_channels"
  by (rule ccontr) (simp add: payload_outside)

lemma full_update_on_channel: "full_update_on c ev \<Longrightarrow> c \<in> status_channels"
  by (cases ev) (auto simp add: full_update_on_def intro: payload_channel)

lemma status_run_append:
  "status_run (evs @ StatusStart # msgs)
     = foldl status_step (fst (status_start (status_run evs))) msgs"
  by (simp add: status_run_def status_step_def)

text \<open>
  C6. After any history, a \<open>start\<close> that returns, and then only received messages: the
  sync set is the set of channels on which a full update with its payload has arrived,
  \<open>synced\<close> is true exactly when that holds of all five channels, and then the state
  is \<open>Connected\<close>. After every history \<open>synced\<close> is true exactly when the sync set
  is the set of the five channels.
\<close>

theorem C6_synced_iff_all_channels_full:
  assumes "snd (status_start (status_run evs)) = None"
    and "\<forall>ev\<in>set msgs. is_receive ev"
  shows "synced_channels (status_run (evs @ StatusStart # msgs))
           = {c \<in> status_channels. \<exists>ev\<in>set msgs. full_update_on c ev}
     \<and> synced (status_run (evs @ StatusStart # msgs))
           = (\<forall>c\<in>status_channels. \<exists>ev\<in>set msgs. full_update_on c ev)
     \<and> ((\<forall>c\<in>status_channels. \<exists>ev\<in>set msgs. full_update_on c ev) \<longrightarrow>
           state (status_run (evs @ StatusStart # msgs)) = Connected)
     \<and> synced (status_run evs) = (synced_channels (status_run evs) = status_channels)"
proof -
  let ?a = "fst (status_start (status_run evs))"
  let ?b = "status_run (evs @ StatusStart # msgs)"
  let ?F = "{c. \<exists>ev\<in>set msgs. full_update_on c ev}"
  have i0: "status_inv ?a" by (simp add: status_start_inv status_run_inv)
  have w0: "worker_running ?a" using assms(1) by (rule status_start_worker_running)
  have "\<not> connected ?a" using i0 by (simp add: status_inv_def)
  with i0 have e0: "synced_channels ?a = {}" by (auto simp add: status_inv_def)
  from receive_only_run [OF i0 w0 assms(2)]
  have inv: "status_inv ?b" and sc: "synced_channels ?b = ?F"
    and cn: "(\<exists>c. \<exists>ev\<in>set msgs. full_update_on c ev) \<Longrightarrow> state ?b = Connected"
    by (simp_all add: status_run_append e0)
  have sub: "?F \<subseteq> status_channels" using full_update_on_channel by blast
  have c1: "synced_channels ?b = {c \<in> status_channels. \<exists>ev\<in>set msgs. full_update_on c ev}"
    using sc sub by blast
  from inv have "synced ?b = (synced_channels ?b = status_channels)"
    by (simp add: status_inv_def sync_consistent_def)
  then have c2: "synced ?b = (\<forall>c\<in>status_channels. \<exists>ev\<in>set msgs. full_update_on c ev)"
    using sc sub by blast
  have c3: "(\<forall>c\<in>status_channels. \<exists>ev\<in>set msgs. full_update_on c ev) \<longrightarrow>
      state ?b = Connected"
  proof
    assume "\<forall>c\<in>status_channels. \<exists>ev\<in>set msgs. full_update_on c ev"
    then have "\<exists>ev\<in>set msgs. full_update_on ''motion'' ev" by simp
    then show "state ?b = Connected" using cn by blast
  qed
  have c4: "synced (status_run evs) = (synced_channels (status_run evs) = status_channels)"
    using status_run_inv [of evs] by (simp add: status_inv_def sync_consistent_def)
  from c1 c2 c3 c4 show ?thesis by blast
qed

theorem C6_synced_iff_all_channels_full_witness:
  "snd (status_start (status_run [])) = None
   \<and> synced (status_run ([] @ StatusStart # five_full_updates))
   \<and> state (status_run ([] @ StatusStart # five_full_updates)) = Connected
   \<and> \<not> synced (status_run ([] @ StatusStart # butlast five_full_updates))"
proof -
  have h1: "snd (status_start (status_run [])) = None"
    by (simp add: status_run_def status_start_def status_connect_sockets_def
        ApplicationStatus_def Let_def)
  have h2: "\<forall>ev\<in>set five_full_updates. is_receive ev"
    by (simp add: five_full_updates_def is_receive_def)
  have h3: "\<forall>ev\<in>set (butlast five_full_updates). is_receive ev"
    by (simp add: five_full_updates_def is_receive_def)
  have a: "\<forall>c\<in>status_channels. \<exists>ev\<in>set five_full_updates. full_update_on c ev"
    by (simp add: status_channels_def five_full_updates_def full_update_on_def payload_def
        Container_def)
  have b: "\<not> (\<forall>c\<in>status_channels. \<exists>ev\<in>set (butlast five_full_updates). full_update_on c ev)"
    by (simp add: status_channels_def five_full_updates_def full_update_on_def payload_def
        Container_def)
  from C6_synced_iff_all_channels_full [OF h1 h2] C6_synced_iff_all_channels_full [OF h1 h3]
    h1 a b
  show ?thesis by simp
qed

section \<open>The three endpoints: connected and the public state\<close>

text \<open>
  C5. For each of the three endpoints, after every sequence of events \<open>connected\<close> is
  true exactly when the public state is \<open>Connected\<close>: it holds of the new object
  (\<open>Disconnected\<close>, \<open>connected\<close> false) and each \<open>update_state\<close> preserves it.
\<close>

theorem C5_connected_iff_state_connected:
  "connected (status_run evs) = (state (status_run evs) = Connected)
   \<and> connected (command_run cevs) = (state (command_run cevs) = Connected)
   \<and> connected (error_run eevs) = (state (error_run eevs) = Connected)
   \<and> state ApplicationStatus = Disconnected \<and> \<not> connected ApplicationStatus
   \<and> state ApplicationCommand = Disconnected \<and> \<not> connected ApplicationCommand
   \<and> state ApplicationError = Disconnected \<and> \<not> connected ApplicationError
   \<and> (connected s = (state s = Connected) \<longrightarrow>
        connected (status_update_state st s) = (state (status_update_state st s) = Connected))
   \<and> (connected c = (state c = Connected) \<longrightarrow>
        connected (command_update_state st c) = (state (command_update_state st c) = Connected))
   \<and> (connected e = (state e = Connected) \<longrightarrow>
        connected (error_update_state st e) = (state (error_update_state st e) = Connected))"
proof -
  have "connected (status_run evs) = (state (status_run evs) = Connected)"
    using status_run_inv [of evs] by (simp add: status_inv_def)
  moreover have "connected (command_run cevs) = (state (command_run cevs) = Connected)"
    using command_inv_run [of cevs] by (simp add: command_inv_def)
  moreover have "connected (error_run eevs) = (state (error_run eevs) = Connected)"
    using error_run_inv [of eevs] by (simp add: error_inv_def)
  moreover have "state ApplicationStatus = Disconnected \<and> \<not> connected ApplicationStatus"
    by (simp add: ApplicationStatus_def)
  moreover have "state ApplicationCommand = Disconnected \<and> \<not> connected ApplicationCommand"
    by (simp add: ApplicationCommand_def)
  moreover have "state ApplicationError = Disconnected \<and> \<not> connected ApplicationError"
    by (simp add: ApplicationError_def)
  moreover have "connected s = (state s = Connected) \<longrightarrow>
      connected (status_update_state st s) = (state (status_update_state st s) = Connected)"
    by auto
  moreover have "connected c = (state c = Connected) \<longrightarrow>
      connected (command_update_state st c) = (state (command_update_state st c) = Connected)"
    by auto
  moreover have "connected e = (state e = Connected) \<longrightarrow>
      connected (error_update_state st e) = (state (error_update_state st e) = Connected)"
    by auto
  ultimately show ?thesis by blast
qed

theorem C5_connected_iff_state_connected_witness:
  "connected (status_run [StatusStart, StatusReceive ''motion'' full_update_motion])
   \<and> state (status_run [StatusStart, StatusReceive ''motion'' full_update_motion]) = Connected
   \<and> \<not> connected (command_run [CommandStart])
   \<and> state (command_run [CommandStart]) = Connecting
   \<and> connected ApplicationError = (state ApplicationError = Connected)
   \<and> connected (error_update_state Connected ApplicationError)
   \<and> state (error_update_state Connected ApplicationError) = Connected
   \<and> \<not> connected (status_update_state Timeout
          (status_run [StatusStart, StatusReceive ''motion'' full_update_motion]))"
proof -
  let ?s = "status_run [StatusStart, StatusReceive ''motion'' full_update_motion]"
  have h1: "state ?s = Connected" by (simp add: status_run_connected)
  have h2: "state (command_run [CommandStart]) = Connecting" by (simp add: command_run_start)
  have h3: "connected ApplicationError = (state ApplicationError = Connected)"
    by (simp add: ApplicationError_def)
  from C5_connected_iff_state_connected
    [of "[StatusStart, StatusReceive ''motion'' full_update_motion]" "[CommandStart]" "[]"
      ?s Timeout ApplicationCommand ApplicationError]
    C5_connected_iff_state_connected
    [of "[]" "[]" "[]" ApplicationStatus Connected ApplicationCommand ApplicationError]
    h1 h2 h3
  show ?thesis by simp
qed

section \<open>The command endpoint: heartbeat and outbound container\<close>

text \<open>
  C2. The claim: \<open>start\<close> of the CommandClient arms the heartbeat timer, so that
  without acknowledgements the state becomes \<open>Timeout\<close>. In the source
  \<open>start_command_heartbeat\<close> returns at once while \<open>connected\<close> is false, which it
  is in \<open>start\<close>: after \<open>start\<close> on a new object one \<open>PING\<close> is sent and the state is
  \<open>Connecting\<close> with the default period 3000, but no timer exists; and whatever happens
  to the object, no timer ever exists and the state is never \<open>Timeout\<close>.
\<close>

theorem C2_heartbeat_never_armed:
  "heartbeat_period (command_run [CommandStart]) = 3000
   \<and> state (command_run [CommandStart]) = Connecting
   \<and> map mtype (sent (command_run [CommandStart])) = [Some MT_PING]
   \<and> heartbeat_timer (command_run [CommandStart]) = None
   \<and> (\<forall>evs. heartbeat_timer (command_run evs) = None \<and> state (command_run evs) \<noteq> Timeout)"
proof -
  have "\<forall>evs. heartbeat_timer (command_run evs) = None \<and> state (command_run evs) \<noteq> Timeout"
    using command_inv_run by (simp add: command_inv_def)
  then show ?thesis
    by (simp add: command_run_start ApplicationCommand_def Container_def)
qed

lemma command_run_connected:
  "command_run [CommandStart, CommandReceive ping_acknowledge] =
     ApplicationCommand\<lparr>threads := [Started], sockets_connected := True, state := Connected,
       connected := True, command_state := Up,
       sent := [Container\<lparr>mtype := Some MT_PING\<rparr>]\<rparr>"
proof -
  have "command_run [CommandStart, CommandReceive ping_acknowledge]
      = command_step (command_run [CommandStart]) (CommandReceive ping_acknowledge)"
    by (simp add: command_run_def)
  then show ?thesis
    by (simp add: command_run_start command_step_def worker_running_def process_command_def
        command_update_state_def ping_acknowledge_def ApplicationCommand_def Let_def)
qed

lemma command_run_debug_level:
  "command_run [CommandStart, CommandReceive ping_acknowledge, CommandCall (Set_debug_level 5)]
     = ApplicationCommand\<lparr>threads := [Started], sockets_connected := True, state := Connected,
         connected := True, command_state := Up,
         tx := Container\<lparr>emc_command_params := [(''debug_level'', PInt 5)]\<rparr>,
         sent := [Container\<lparr>mtype := Some MT_PING\<rparr>]\<rparr>"
proof -
  have "command_run [CommandStart, CommandReceive ping_acknowledge,
        CommandCall (Set_debug_level 5)]
      = command_step (command_run [CommandStart, CommandReceive ping_acknowledge])
          (CommandCall (Set_debug_level 5))"
    by (simp add: command_run_def)
  then show ?thesis
    by (simp add: command_run_connected command_step_def set_debug_level_def set_param_def
        ApplicationCommand_def Container_def Clear_def)
qed

text \<open>
  C8. The claim: the outbound container \<open>tx\<close> is empty after every public command
  operation returns. On a connected CommandClient \<open>set_debug_level(5)\<close> stores the
  field \<open>debug_level\<close>, raises \<open>TypeError\<close> at the assignment to \<open>interp_name\<close>
  and sends nothing; \<open>set_spindle_brake(7)\<close> then returns, neither sending nor
  clearing, with \<open>tx\<close> still holding that field; and a following \<open>abort\<close> sends it
  along. (With \<open>tx\<close> empty, \<open>jog\<close> with the unknown kind 99 and \<open>set_spindle\<close>
  with the unknown mode 7 do leave it empty and send nothing.)
\<close>

theorem C8_tx_left_dirty_by_set_debug_level:
  "connected (command_run [CommandStart, CommandReceive ping_acknowledge])
   \<and> tx (command_run [CommandStart, CommandReceive ping_acknowledge]) = Container
   \<and> snd (set_debug_level 5 (command_run [CommandStart, CommandReceive ping_acknowledge]))
        = Some TypeError
   \<and> tx (command_run [CommandStart, CommandReceive ping_acknowledge,
          CommandCall (Set_debug_level 5), CommandCall (Set_spindle_brake 7)])
        = Container\<lparr>emc_command_params := [(''debug_level'', PInt 5)]\<rparr>
   \<and> tx (command_run [CommandStart, CommandReceive ping_acknowledge,
          CommandCall (Set_debug_level 5), CommandCall (Set_spindle_brake 7)]) \<noteq> Container
   \<and> sent (command_run [CommandStart, CommandReceive ping_acknowledge,
          CommandCall (Set_debug_level 5), CommandCall (Set_spindle_brake 7)])
        = [Container\<lparr>mtype := Some MT_PING\<rparr>]
   \<and> sent (command_run [CommandStart, CommandReceive ping_acknowledge,
          CommandCall (Set_debug_level 5), CommandCall (Abort ''x'')])
        = [Container\<lparr>mtype := Some MT_PING\<rparr>,
           Container\<lparr>mtype := Some MT_EMC_TASK_ABORT, interp_name := Some (PStr ''x''),
             emc_command_params := [(''debug_level'', PInt 5)]\<rparr>]
   \<and> tx (jog 99 2 10 5 (command_run [CommandStart, CommandReceive ping_acknowledge]))
        = Container
   \<and> sent (jog 99 2 10 5 (command_run [CommandStart, CommandReceive ping_acknowledge]))
        = [Container\<lparr>mtype := Some MT_PING\<rparr>]
   \<and> tx (set_spindle 7 1 (command_run [CommandStart, CommandReceive ping_acknowledge]))
        = Container
   \<and> sent (set_spindle 7 1 (command_run [CommandStart, CommandReceive ping_acknowledge]))
        = [Container\<lparr>mtype := Some MT_PING\<rparr>]"
proof -
  let ?c = "command_run [CommandStart, CommandReceive ping_acknowledge]"
  let ?d = "command_run [CommandStart, CommandReceive ping_acknowledge,
          CommandCall (Set_debug_level 5)]"
  have a: "connected ?c" "tx ?c = Container" "snd (set_debug_level 5 ?c) = Some TypeError"
    by (simp_all add: command_run_connected set_debug_level_def ApplicationCommand_def)
  have e1: "command_run [CommandStart, CommandReceive ping_acknowledge,
          CommandCall (Set_debug_level 5), CommandCall (Set_spindle_brake 7)]
      = command_step ?d (CommandCall (Set_spindle_brake 7))"
    and e2: "command_run [CommandStart, CommandReceive ping_acknowledge,
          CommandCall (Set_debug_level 5), CommandCall (Abort ''x'')]
      = command_step ?d (CommandCall (Abort ''x''))"
    by (simp_all add: command_run_def)
  have b: "tx (command_step ?d (CommandCall (Set_spindle_brake 7)))
        = Container\<lparr>emc_command_params := [(''debug_level'', PInt 5)]\<rparr>"
    "sent (command_step ?d (CommandCall (Set_spindle_brake 7)))
        = [Container\<lparr>mtype := Some MT_PING\<rparr>]"
    by (simp_all add: command_run_debug_level command_step_def set_spindle_brake_def
        ENGAGE_BRAKE_def RELEASE_BRAKE_def ApplicationCommand_def)
  have n: "Container\<lparr>emc_command_params := [(''debug_level'', PInt 5)]\<rparr> \<noteq> Container"
    by (simp add: Container_def Clear_def)
  have c: "sent (command_step ?d (CommandCall (Abort ''x'')))
        = [Container\<lparr>mtype := Some MT_PING\<rparr>,
           Container\<lparr>mtype := Some MT_EMC_TASK_ABORT, interp_name := Some (PStr ''x''),
             emc_command_params := [(''debug_level'', PInt 5)]\<rparr>]"
    by (simp add: command_run_debug_level command_step_def abort_def set_interp_name_def
        ApplicationCommand_def Container_def)
  have d: "tx (jog 99 2 10 5 ?c) = Container"
    "sent (jog 99 2 10 5 ?c) = [Container\<lparr>mtype := Some MT_PING\<rparr>]"
    "tx (set_spindle 7 1 ?c) = Container"
    "sent (set_spindle 7 1 ?c) = [Container\<lparr>mtype := Some MT_PING\<rparr>]"
    by (simp_all add: command_run_connected jog_def set_spindle_def STOP_JOG_def
        CONTINOUS_JOG_def INCREMENT_JOG_def SPINDLE_FORWARD_def SPINDLE_REVERSE_def
        SPINDLE_OFF_def SPINDLE_INCREASE_def SPINDLE_DECREASE_def SPINDLE_CONSTANT_def
        ApplicationCommand_def Let_def)
  from a b n c d show ?thesis
    unfolding e1 e2 by simp
qed

section \<open>The error endpoint: buffer and PING\<close>

lemma error_run_start:
  "error_run [ErrorStart]
     = ApplicationError\<lparr>threads := [Started], sockets_connected := True, state := Connecting,
         socket_state := Trying, subscriptions := error_channels,
         filters := error_channels\<rparr>"
  by (simp add: error_run_def error_step_def error_start_def error_update_state_def
      error_connect_sockets_def error_subscribe_def ApplicationError_def Let_def)

lemma error_run_two_messages:
  "error_run [ErrorStart, ErrorReceive ''text'' operator_text_ab,
      ErrorReceive ''error'' nml_error_x]
     = ApplicationError\<lparr>threads := [Started], sockets_connected := True, state := Connecting,
         socket_state := Trying, subscriptions := error_channels,
         filters := error_channels,
         error_list := [0, 0, 1],
         heap := [\<lparr>entry_type = Some MT_EMC_OPERATOR_TEXT, entry_notes = [''a'', ''b'']\<rparr>,
                  \<lparr>entry_type = Some MT_EMC_NML_ERROR, entry_notes = [''x'']\<rparr>]\<rparr>"
proof -
  have "error_run [ErrorStart, ErrorReceive ''text'' operator_text_ab,
      ErrorReceive ''error'' nml_error_x]
    = error_step (error_step (error_run [ErrorStart]) (ErrorReceive ''text'' operator_text_ab))
        (ErrorReceive ''error'' nml_error_x)"
    by (simp add: error_run_def)
  then show ?thesis
    by (simp add: error_run_start error_step_def worker_running_def process_error_def
        append_note_def refresh_error_heartbeat_def operator_text_ab_def nml_error_x_def
        Container_def ApplicationError_def Let_def)
qed

text \<open>
  C1. The claim: a notification with n notes adds exactly one entry to the error buffer.
  The source appends the dict inside the loop over the notes: after an
  \<open>OPERATOR_TEXT\<close> with notes a, b and an \<open>NML_ERROR\<close> with note x,
  \<open>get_messages\<close> returns three references, the first two to the same dict, read as
  three entries.
\<close>

theorem C1_entry_appended_per_note:
  "fst (get_messages (error_run [ErrorStart, ErrorReceive ''text'' operator_text_ab,
      ErrorReceive ''error'' nml_error_x])) = [0, 0, 1]
   \<and> entries (error_run [ErrorStart, ErrorReceive ''text'' operator_text_ab,
        ErrorReceive ''error'' nml_error_x])
      (fst (get_messages (error_run [ErrorStart, ErrorReceive ''text'' operator_text_ab,
        ErrorReceive ''error'' nml_error_x])))
     = [\<lparr>entry_type = Some MT_EMC_OPERATOR_TEXT, entry_notes = [''a'', ''b'']\<rparr>,
        \<lparr>entry_type = Some MT_EMC_OPERATOR_TEXT, entry_notes = [''a'', ''b'']\<rparr>,
        \<lparr>entry_type = Some MT_EMC_NML_ERROR, entry_notes = [''x'']\<rparr>]"
  by (simp add: error_run_two_messages get_messages_def entries_def ApplicationError_def)

text \<open>
  C9. \<open>get_messages\<close> returns the contents of the error buffer and leaves the buffer
  empty, changing nothing else, so that the returned references read the same entries
  afterwards; a second call returns the empty list and changes nothing; on an empty buffer
  the call returns the empty list and the object as it was.
\<close>

theorem C9_get_messages_drains:
  "fst (get_messages s) = error_list s
   \<and> snd (get_messages s) = s\<lparr>error_list := []\<rparr>
   \<and> entries (snd (get_messages s)) (fst (get_messages s)) = entries s (error_list s)
   \<and> fst (get_messages (snd (get_messages s))) = []
   \<and> snd (get_messages (snd (get_messages s))) = snd (get_messages s)
   \<and> (error_list s = [] \<longrightarrow> get_messages s = ([], s))"
  by (simp add: get_messages_def entries_def)

theorem C9_get_messages_drains_witness:
  "fst (get_messages (error_run [ErrorStart, ErrorReceive ''text'' operator_text_ab,
      ErrorReceive ''error'' nml_error_x])) = [0, 0, 1]
   \<and> fst (get_messages (snd (get_messages (error_run [ErrorStart,
        ErrorReceive ''text'' operator_text_ab, ErrorReceive ''error'' nml_error_x])))) = []
   \<and> error_list ApplicationError = []
   \<and> get_messages ApplicationError = ([], ApplicationError)"
proof -
  have h1: "error_list (error_run [ErrorStart, ErrorReceive ''text'' operator_text_ab,
      ErrorReceive ''error'' nml_error_x]) = [0, 0, 1]"
    by (simp add: error_run_two_messages)
  have h2: "error_list ApplicationError = []" by (simp add: ApplicationError_def)
  note t = C9_get_messages_drains [of "error_run [ErrorStart,
        ErrorReceive ''text'' operator_text_ab, ErrorReceive ''error'' nml_error_x]"]
  from t have a: "fst (get_messages (error_run [ErrorStart,
        ErrorReceive ''text'' operator_text_ab, ErrorReceive ''error'' nml_error_x]))
      = error_list (error_run [ErrorStart,
        ErrorReceive ''text'' operator_text_ab, ErrorReceive ''error'' nml_error_x])"
    by blast
  from t have b: "fst (get_messages (snd (get_messages (error_run [ErrorStart,
        ErrorReceive ''text'' operator_text_ab, ErrorReceive ''error'' nml_error_x])))) = []"
    by blast
  from C9_get_messages_drains [of ApplicationError] h2
  have c: "get_messages ApplicationError = ([], ApplicationError)"
    by blast
  from a b c h1 h2 show ?thesis by simp
qed

lemma ping_views_agree:
  assumes "mtype rx = Some MT_PING" and "connected e = (state e = Connected)"
    and "socket_state e = Up \<or> state e = Timeout" and "pparams rx = None"
    and "status_view s = error_view e"
  shows "status_view (process_status t rx s) = error_view (process_error t' rx e)"
proof (cases "socket_state e = Up")
  case True
  with assms(1,4,5) show ?thesis
    by (simp add: process_status_def process_error_def status_view_def error_view_def
        refresh_status_heartbeat_def refresh_error_heartbeat_def Let_def split: option.splits)
next
  case False
  with assms(3) have t: "state e = Timeout" by simp
  with assms(2) have "\<not> connected e" by simp
  with False t assms(1,4,5) show ?thesis
    by (simp add: process_status_def process_error_def status_view_def error_view_def
        status_update_state_def error_update_state_def status_subscribe_def
        status_unsubscribe_def error_subscribe_def error_unsubscribe_def Let_def)
qed

lemma process_status_ping_ignores_pparams:
  "mtype rx = Some MT_PING \<Longrightarrow> process_status t (rx\<lparr>pparams := q\<rparr>) s = process_status t rx s"
  by (simp add: process_status_def)

text \<open>
  C3, as amended. On a \<open>PING\<close> the ErrorClient, like the StatusClient, leaves the
  states and the subscriptions alone when the socket-level state is \<open>Up\<close>
  (it refreshes the keepalive), and when the socket-level state is not \<open>Up\<close> while the
  public state is \<open>Timeout\<close> it sets the state to \<open>Connecting\<close>, unsubscribes the
  recorded topics and subscribes again; in both cases, for a \<open>PING\<close> without
  \<open>pparams\<close>, the two clients end in the same connection state when they started in the
  same one. When the socket-level state is not \<open>Up\<close> and the public state is not
  \<open>Timeout\<close>, the ErrorClient instead sets the socket-level state to \<open>Up\<close> and the
  public state to \<open>Connected\<close> and keeps its subscriptions. A \<open>PING\<close> that carries
  \<open>pparams\<close> sets the ErrorClient's keepalive period to twice \<open>keepalive_timer\<close> and,
  when that is positive, arms the timer with it; the StatusClient ignores \<open>pparams\<close> on a
  \<open>PING\<close>.
\<close>

theorem C3_error_ping_handling:
  assumes "mtype rx = Some MT_PING" and "connected e = (state e = Connected)"
  shows "(socket_state e = Up \<longrightarrow>
            state (process_error t' rx e) = state e
          \<and> socket_state (process_error t' rx e) = Up
          \<and> subscriptions (process_error t' rx e) = subscriptions e
          \<and> filters (process_error t' rx e) = filters e)
     \<and> (socket_state e \<noteq> Up \<and> state e = Timeout \<longrightarrow>
            state (process_error t' rx e) = Connecting
          \<and> socket_state (process_error t' rx e) = Trying
          \<and> subscriptions (process_error t' rx e) = channels e
          \<and> filters (process_error t' rx e) = (filters e - subscriptions e) \<union> channels e)
     \<and> (socket_state e \<noteq> Up \<and> state e \<noteq> Timeout \<longrightarrow>
            state (process_error t' rx e) = Connected
          \<and> socket_state (process_error t' rx e) = Up
          \<and> connected (process_error t' rx e)
          \<and> subscriptions (process_error t' rx e) = subscriptions e
          \<and> filters (process_error t' rx e) = filters e)
     \<and> ((socket_state e = Up \<or> state e = Timeout) \<and> pparams rx = None
          \<and> status_view s = error_view e \<longrightarrow>
            status_view (process_status t rx s) = error_view (process_error t' rx e))
     \<and> (\<forall>p. pparams rx = Some p \<longrightarrow>
            error_period (process_error t' rx e) = keepalive_timer p * 2
          \<and> (0 < keepalive_timer p \<longrightarrow>
               error_timer (process_error t' rx e)
                 = Some (Timer (keepalive_timer p * 2) True)))
     \<and> process_status t (rx\<lparr>pparams := q\<rparr>) s = process_status t rx s"
proof -
  have a: "socket_state e = Up \<longrightarrow>
            state (process_error t' rx e) = state e
          \<and> socket_state (process_error t' rx e) = Up
          \<and> subscriptions (process_error t' rx e) = subscriptions e
          \<and> filters (process_error t' rx e) = filters e"
    using assms(1) by (simp add: process_error_def Let_def split: option.splits)
  have b: "socket_state e \<noteq> Up \<and> state e = Timeout \<longrightarrow>
            state (process_error t' rx e) = Connecting
          \<and> socket_state (process_error t' rx e) = Trying
          \<and> subscriptions (process_error t' rx e) = channels e
          \<and> filters (process_error t' rx e) = (filters e - subscriptions e) \<union> channels e"
    using assms(1) by (simp add: process_error_def Let_def split: option.splits)
  have c: "socket_state e \<noteq> Up \<and> state e \<noteq> Timeout \<longrightarrow>
            state (process_error t' rx e) = Connected
          \<and> socket_state (process_error t' rx e) = Up
          \<and> connected (process_error t' rx e)
          \<and> subscriptions (process_error t' rx e) = subscriptions e
          \<and> filters (process_error t' rx e) = filters e"
    using assms by (simp add: process_error_def Let_def split: option.splits)
  have d: "(socket_state e = Up \<or> state e = Timeout) \<and> pparams rx = None
          \<and> status_view s = error_view e \<longrightarrow>
            status_view (process_status t rx s) = error_view (process_error t' rx e)"
    using ping_views_agree [OF assms] by blast
  have f: "\<forall>p. pparams rx = Some p \<longrightarrow>
            error_period (process_error t' rx e) = keepalive_timer p * 2
          \<and> (0 < keepalive_timer p \<longrightarrow>
               error_timer (process_error t' rx e)
                 = Some (Timer (keepalive_timer p * 2) True))"
    using assms(1) by (simp add: process_error_def Let_def)
  have g: "process_status t (rx\<lparr>pparams := q\<rparr>) s = process_status t rx s"
    using assms(1) by (rule process_status_ping_ignores_pparams)
  from a b c d f g show ?thesis by blast
qed

text \<open>
  C3 as stated fails: after \<open>start\<close> the two clients are in the same connection state,
  and a \<open>PING\<close> leaves the StatusClient in \<open>Connecting\<close> but takes the ErrorClient to
  \<open>Connected\<close>; a \<open>PING\<close> with \<open>pparams\<close> arms the ErrorClient's timer and not
  the StatusClient's.
\<close>

theorem C3_ping_after_start_differs:
  "status_view (status_run [StatusStart]) = error_view (error_run [ErrorStart])
   \<and> socket_state (error_run [ErrorStart]) = Trying
   \<and> state (process_status ''motion'' ping_message (status_run [StatusStart])) = Connecting
   \<and> state (process_error ''error'' ping_message (error_run [ErrorStart])) = Connected
   \<and> subscriptions (process_error ''error'' ping_message (error_run [ErrorStart]))
        = subscriptions (error_run [ErrorStart])
   \<and> status_view (process_status ''motion'' ping_message (status_run [StatusStart]))
        \<noteq> error_view (process_error ''error'' ping_message (error_run [ErrorStart]))
   \<and> status_timer (process_status ''motion'' ping_keepalive (status_run [StatusStart])) = None
   \<and> error_timer (process_error ''error'' ping_keepalive (error_run [ErrorStart]))
        = Some (Timer 2000 True)"
  by (simp add: status_run_start error_run_start status_view_def error_view_def
      process_status_def process_error_def ping_message_def ping_keepalive_def Container_def
      start_error_heartbeat_def
      status_update_state_def error_update_state_def status_subscribe_def
      status_unsubscribe_def ApplicationStatus_def ApplicationError_def Let_def)

lemma error_run_connected:
  "error_run [ErrorStart, ErrorReceive ''error'' ping_message]
     = ApplicationError\<lparr>threads := [Started], sockets_connected := True, state := Connected,
         connected := True, socket_state := Up, subscriptions := error_channels,
         filters := error_channels\<rparr>"
proof -
  have "error_run [ErrorStart, ErrorReceive ''error'' ping_message]
      = error_step (error_run [ErrorStart]) (ErrorReceive ''error'' ping_message)"
    by (simp add: error_run_def)
  then show ?thesis
    by (simp add: error_run_start error_step_def worker_running_def process_error_def
        error_update_state_def ping_message_def Container_def ApplicationError_def Let_def)
qed

lemma error_run_timeout:
  "error_run [ErrorStart, ErrorReceive ''error'' ping_keepalive, ErrorTimerExpired]
     = ApplicationError\<lparr>threads := [Started], sockets_connected := True, state := Timeout,
         connected := False, socket_state := Down, subscriptions := error_channels,
         filters := error_channels, error_period := 2000\<rparr>"
proof -
  have "error_run [ErrorStart, ErrorReceive ''error'' ping_keepalive, ErrorTimerExpired]
      = error_step (error_step (error_run [ErrorStart]) (ErrorReceive ''error'' ping_keepalive))
          ErrorTimerExpired"
    by (simp add: error_run_def)
  then show ?thesis
    by (simp add: error_run_start error_step_def worker_running_def process_error_def
        error_update_state_def start_error_heartbeat_def stop_error_heartbeat_def
        error_heartbeat_timer_tick_def cancel_def
        ping_keepalive_def Container_def ApplicationError_def Let_def)
qed

theorem C3_error_ping_handling_witness:
  "mtype ping_message = Some MT_PING
   \<and> connected (error_run [ErrorStart]) = (state (error_run [ErrorStart]) = Connected)
   \<and> state (process_error ''error'' ping_message (error_run [ErrorStart])) = Connected
   \<and> error_timer (process_error ''error'' ping_keepalive (error_run [ErrorStart]))
        = Some (Timer 2000 True)
   \<and> state (error_run [ErrorStart, ErrorReceive ''error'' ping_keepalive, ErrorTimerExpired])
        = Timeout
   \<and> state (process_error ''error'' ping_message
        (error_run [ErrorStart, ErrorReceive ''error'' ping_keepalive, ErrorTimerExpired]))
        = Connecting
   \<and> socket_state (error_run [ErrorStart, ErrorReceive ''error'' ping_message]) = Up
   \<and> status_view (process_status ''motion'' ping_message
        (status_run [StatusStart, StatusReceive ''motion''
           (Container\<lparr>mtype := Some MT_EMCSTAT_FULL_UPDATE\<rparr>)]))
      = error_view (process_error ''error'' ping_message
        (error_run [ErrorStart, ErrorReceive ''error'' ping_message]))"
proof -
  let ?e1 = "error_run [ErrorStart]"
  let ?e2 = "error_run [ErrorStart, ErrorReceive ''error'' ping_message]"
  let ?e3 = "error_run [ErrorStart, ErrorReceive ''error'' ping_keepalive, ErrorTimerExpired]"
  let ?s2 = "status_run [StatusStart, StatusReceive ''motion''
           (Container\<lparr>mtype := Some MT_EMCSTAT_FULL_UPDATE\<rparr>)]"
  have m: "mtype ping_message = Some MT_PING" "mtype ping_keepalive = Some MT_PING"
    "pparams ping_message = None" "pparams ping_keepalive = Some \<lparr>keepalive_timer = 1000\<rparr>"
    by (simp_all add: ping_message_def ping_keepalive_def Container_def)
  have i1: "connected ?e1 = (state ?e1 = Connected)"
    and i2: "connected ?e2 = (state ?e2 = Connected)"
    and i3: "connected ?e3 = (state ?e3 = Connected)"
    using error_run_inv by (simp_all add: error_inv_def)
  have f1: "socket_state ?e1 \<noteq> Up" "state ?e1 \<noteq> Timeout"
    by (simp_all add: error_run_start)
  have f2: "socket_state ?e2 = Up"
    by (simp add: error_run_connected)
  have f3: "socket_state ?e3 \<noteq> Up" "state ?e3 = Timeout"
    by (simp_all add: error_run_timeout)
  have v: "status_view ?s2 = error_view ?e2"
    by (simp add: status_run_full_no_payload error_run_connected status_view_def
        error_view_def ApplicationStatus_def ApplicationError_def)
  from C3_error_ping_handling [OF m(1) i1, of "''error''"] f1
  have a: "state (process_error ''error'' ping_message ?e1) = Connected" by blast
  from C3_error_ping_handling [OF m(2) i1, of "''error''"] m(4)
  have b: "error_timer (process_error ''error'' ping_keepalive ?e1) = Some (Timer 2000 True)"
    by simp
  from C3_error_ping_handling [OF m(1) i3, of "''error''"] f3
  have c: "state (process_error ''error'' ping_message ?e3) = Connecting" by blast
  from C3_error_ping_handling [OF m(1) i2, of "''error''" ?s2 "''motion''"] f2 m(3) v
  have d: "status_view (process_status ''motion'' ping_message ?s2)
      = error_view (process_error ''error'' ping_message ?e2)" by blast
  from a b c d m(1) i1 f2 f3(2) show ?thesis by simp
qed

end
